theory Spec2Isabelle
  imports Main "HOL-Library.Word" "HOL-Library.Multiset"
begin

section \<open>JavaScript strings\<close>

text \<open>
  A JavaScript string is a sequence of UTF-16 code units. String constants of the
  source are ASCII and are written \<open>str ''...''\<close>.
\<close>

type_synonym code_unit = "16 word"
type_synonym jsstring = "code_unit list"

definition str :: "string \<Rightarrow> jsstring" where
  "str s = map of_char s"

text \<open>
  \<open>String.prototype.trim\<close> and \<open>parseInt\<close> strip the code units of WhiteSpace and
  LineTerminator (ECMA-262, TrimString): TAB, VT, FF, SP, NBSP, the Unicode space
  separators, ZWNBSP, LF, CR, LS and PS.
\<close>

definition isWhiteSpace :: "code_unit \<Rightarrow> bool" where
  "isWhiteSpace c \<longleftrightarrow> c \<in> {0x0009, 0x000B, 0x000C, 0x0020, 0x00A0, 0x1680,
     0x2000, 0x2001, 0x2002, 0x2003, 0x2004, 0x2005, 0x2006, 0x2007, 0x2008, 0x2009, 0x200A,
     0x202F, 0x205F, 0x3000, 0xFEFF, 0x000A, 0x000D, 0x2028, 0x2029}"

definition trimStart :: "jsstring \<Rightarrow> jsstring" where
  "trimStart s = dropWhile isWhiteSpace s"

definition trim :: "jsstring \<Rightarrow> jsstring" where
  "trim s = rev (trimStart (rev (trimStart s)))"

text \<open>
  The UTF-8 encoder that carries a string to the database (\<open>Buffer\<close>, as the driver
  uses it) writes U+FFFD for every surrogate code unit that is not half of a pair,
  as \<open>String.prototype.toWellFormed\<close> does; a pair is kept.
\<close>

definition isHighSurrogate :: "code_unit \<Rightarrow> bool" where
  "isHighSurrogate c \<longleftrightarrow> 0xD800 \<le> c \<and> c \<le> 0xDBFF"

definition isLowSurrogate :: "code_unit \<Rightarrow> bool" where
  "isLowSurrogate c \<longleftrightarrow> 0xDC00 \<le> c \<and> c \<le> 0xDFFF"

fun toWellFormed :: "jsstring \<Rightarrow> jsstring" where
  "toWellFormed [] = []"
| "toWellFormed [c] = (if isHighSurrogate c \<or> isLowSurrogate c then [0xFFFD] else [c])"
| "toWellFormed (c # d # cs) =
     (if isHighSurrogate c \<and> isLowSurrogate d then c # d # toWellFormed cs
      else if isHighSurrogate c \<or> isLowSurrogate c then 0xFFFD # toWellFormed (d # cs)
      else c # toWellFormed (d # cs))"

subsection \<open>parseInt without a radix argument\<close>

text \<open>
  The value of a code unit as a digit: \<open>0\<close>-\<open>9\<close>, then \<open>a\<close>-\<open>z\<close> and \<open>A\<close>-\<open>Z\<close> for
  10 to 35. Every other code unit gets 36, which is a digit in no radix.
\<close>

definition digitValue :: "code_unit \<Rightarrow> nat" where
  "digitValue c =
     (if 0x30 \<le> c \<and> c \<le> 0x39 then unat c - 0x30
      else if 0x61 \<le> c \<and> c \<le> 0x7A then unat c - 0x61 + 10
      else if 0x41 \<le> c \<and> c \<le> 0x5A then unat c - 0x41 + 10
      else 36)"

definition isRadixDigit :: "nat \<Rightarrow> code_unit \<Rightarrow> bool" where
  "isRadixDigit R c \<longleftrightarrow> digitValue c < R"

definition mathInt :: "nat \<Rightarrow> jsstring \<Rightarrow> int" where
  "mathInt R Z = foldl (\<lambda>a c. a * int R + int (digitValue c)) 0 Z"

text \<open>
  The numbers that \<open>parseInt\<close> returns. A mathematical integer of magnitude below
  \<open>2^53\<close> is a JavaScript number as it is (\<open>Integral\<close>; \<open>-0\<close> is \<open>0\<close>). From \<open>2^53\<close> on
  the result is the nearest double or an infinity: \<open>Unsafe\<close> stands for all of these,
  with the sign, and says no more about the value.
\<close>

datatype number = NaN | Integral int | Unsafe bool

definition toNumber :: "int \<Rightarrow> number" where
  "toNumber k = (if \<bar>k\<bar> < 2 ^ 53 then Integral k else Unsafe (k < 0))"

text \<open>
  \<open>parseInt(string)\<close> as ECMA-262 gives it when the radix is undefined: trim leading
  white space, take one sign, switch to radix 16 after a \<open>0x\<close> or \<open>0X\<close> prefix, read
  the longest run of digits of the radix; \<open>NaN\<close> when that run is empty, and else
  the number for the signed value of the run.
\<close>

definition parseInt :: "jsstring \<Rightarrow> number" where
  "parseInt inputString =
     (let S = trimStart inputString;
          sign = (if S \<noteq> [] \<and> hd S = 0x2D then - 1 else 1 :: int);
          S = (if S \<noteq> [] \<and> (hd S = 0x2B \<or> hd S = 0x2D) then tl S else S);
          stripPrefix = (length S \<ge> 2 \<and> take 2 S \<in> {str ''0x'', str ''0X''});
          R = (if stripPrefix then 16 else 10);
          S = (if stripPrefix then drop 2 S else S);
          Z = takeWhile (isRadixDigit R) S
      in if Z = [] then NaN else toNumber (sign * mathInt R Z))"

subsection \<open>Which strings parseInt accepts\<close>

text \<open>
  The strings with a leading integer in the sense of \<open>parseInt\<close>, said without
  running it: after the leading white space and one optional sign, either \<open>0x\<close> or
  \<open>0X\<close> and then a hexadecimal digit, or else a decimal digit.
\<close>

definition isDecimalDigit :: "code_unit \<Rightarrow> bool" where
  "isDecimalDigit c \<longleftrightarrow> 0x30 \<le> c \<and> c \<le> 0x39"

definition isHexDigit :: "code_unit \<Rightarrow> bool" where
  "isHexDigit c \<longleftrightarrow>
     isDecimalDigit c \<or> (0x61 \<le> c \<and> c \<le> 0x66) \<or> (0x41 \<le> c \<and> c \<le> 0x46)"

definition startsWith :: "(code_unit \<Rightarrow> bool) \<Rightarrow> jsstring \<Rightarrow> bool" where
  "startsWith P s = (case s of [] \<Rightarrow> False | c # _ \<Rightarrow> P c)"

definition afterSign :: "jsstring \<Rightarrow> jsstring" where
  "afterSign s = (case s of [] \<Rightarrow> [] | c # cs \<Rightarrow> if c = 0x2B \<or> c = 0x2D then cs else s)"

definition hexPrefixed :: "jsstring \<Rightarrow> bool" where
  "hexPrefixed s = (case s of c # d # _ \<Rightarrow> c = 0x30 \<and> (d = 0x78 \<or> d = 0x58) | _ \<Rightarrow> False)"

definition hasLeadingInteger :: "jsstring \<Rightarrow> bool" where
  "hasLeadingInteger s =
     (let rest = afterSign (trimStart s)
      in if hexPrefixed rest then startsWith isHexDigit (drop 2 rest)
         else startsWith isDecimalDigit rest)"

text \<open>
  The value of a run of digits in radix \<open>R\<close>, digit by digit with its weight, and
  the signed value of the leading integer of a string.
\<close>

fun radixValue :: "nat \<Rightarrow> jsstring \<Rightarrow> int" where
  "radixValue R [] = 0"
| "radixValue R (c # cs) = int (digitValue c) * int R ^ length cs + radixValue R cs"

definition leadingInteger :: "jsstring \<Rightarrow> int" where
  "leadingInteger s =
     (let rest = afterSign (trimStart s);
          magnitude =
            (if hexPrefixed rest then radixValue 16 (takeWhile isHexDigit (drop 2 rest))
             else radixValue 10 (takeWhile isDecimalDigit rest))
      in if startsWith (\<lambda>c. c = 0x2D) (trimStart s) then - magnitude else magnitude)"

text \<open>
  The reading of an id "with a numeric prefix followed by garbage" that the example
  \<open>12abc\<close> suggests: the leading run of decimal digits, and its value.
\<close>

definition numericPrefix :: "jsstring \<Rightarrow> jsstring" where
  "numericPrefix s = takeWhile isDecimalDigit s"

definition integerPrefix :: "jsstring \<Rightarrow> int option" where
  "integerPrefix s = (if numericPrefix s = [] then None else Some (mathInt 10 (numericPrefix s)))"

section \<open>The todos table\<close>

text \<open>
  The row type \<open>Todo\<close> of \<open>@shared/schema\<close>. The fields \<open>id\<close> and \<open>text\<close> of the source
  are \<open>todo_id\<close> and \<open>todo_text\<close> here. Timestamps are milliseconds since the epoch.

  Modelled from the spec: the column types, declared in \<open>@shared/schema\<close>, which is
  not among the sources. The \<open>id\<close> is an "integer", the 32-bit signed \<open>integer\<close>
  of the relational store: a \<open>32 word\<close>, read with \<open>sint\<close>.
\<close>

record Todo =
  todo_id :: "32 word"
  todo_text :: jsstring
  completed :: bool
  createdAt :: int
  updatedAt :: int

text \<open>
  Modelled from the spec: the type \<open>InsertTodo\<close> of \<open>@shared/schema\<close>, which is not
  among the sources; the validated body of a create request, \<open>{ text: string }\<close>.
\<close>

record InsertTodo =
  insert_text :: jsstring

text \<open>
  Modelled from the spec: the type \<open>UpdateTodo\<close> of \<open>@shared/schema\<close>, which is not
  among the sources; the validated body of an update request,
  \<open>{ text?: string, completed?: boolean }\<close>. An absent key is \<open>None\<close>.
\<close>

record UpdateTodo =
  update_text :: "jsstring option"
  update_completed :: "bool option"

text \<open>
  The database behind \<open>db\<close>: the rows of the table \<open>todos\<close> and the last value of
  the sequence that feeds its serial \<open>id\<close> column (0 before the first use). A query
  is answered unless one of its parameters cannot be stored, in which case it raises
  a \<open>DatabaseError\<close> and changes nothing; a lost connection is not part of this
  model.
\<close>

record database =
  todos :: "Todo list"
  todos_id_seq :: nat

datatype DatabaseError = BadInteger | BadText | SequenceExhausted

text \<open>
  A number sent as the parameter compared with the \<open>id\<close> column must be an integer
  of the column's range; anything else makes the query raise.
\<close>

definition bind_integer :: "number \<Rightarrow> DatabaseError + 32 word" where
  "bind_integer n =
     (case n of
        Integral k \<Rightarrow>
          if - 2147483648 \<le> k \<and> k \<le> 2147483647 then Inr (word_of_int k) else Inl BadInteger
      | _ \<Rightarrow> Inl BadInteger)"

text \<open>
  A string sent as the parameter for the \<open>text\<close> column: the database refuses one
  that holds the code unit 0, and stores what the UTF-8 encoder made of the others.
\<close>

definition bind_text :: "jsstring \<Rightarrow> DatabaseError + jsstring" where
  "bind_text s = (if 0 \<in> set s then Inl BadText else Inr (toWellFormed s))"

definition empty_database :: database where
  "empty_database = \<lparr>todos = [], todos_id_seq = 0\<rparr>"

text \<open>
  Modelled from the spec: the column defaults of the table \<open>todos\<close>, declared in
  \<open>@shared/schema\<close>, which is not among the sources. On creation the store "assigns a
  new unique id, sets completed=false, stamps createdAt/updatedAt to now"; the id is
  the next value of the sequence and is never reused.
\<close>

definition insert_defaults :: "InsertTodo \<Rightarrow> 32 word \<Rightarrow> int \<Rightarrow> Todo" where
  "insert_defaults values nextval now =
     \<lparr>todo_id = nextval, todo_text = insert_text values, completed = False,
      createdAt = now, updatedAt = now\<rparr>"

subsection \<open>DatabaseStorage\<close>

text \<open>
  \<open>db.select().from(todos).orderBy(desc(todos.createdAt))\<close>. Rows with the same
  \<open>createdAt\<close> come in table order here; SQL leaves their order open, and no
  statement below depends on it.
\<close>

definition getAllTodos :: "database \<Rightarrow> Todo list" where
  "getAllTodos db = sort_key (\<lambda>t. - createdAt t) (todos db)"

text \<open>
  \<open>db.insert(todos).values(insertTodo).returning()\<close>, at database time \<open>now\<close>. The
  text is bound first; then the sequence gives the id, and raises once the column's
  range is used up.
\<close>

definition createTodo :: "InsertTodo \<Rightarrow> int \<Rightarrow> database \<Rightarrow> DatabaseError + Todo \<times> database" where
  "createTodo insertTodo now db =
     (case bind_text (insert_text insertTodo) of
        Inl error \<Rightarrow> Inl error
      | Inr stored \<Rightarrow>
          (let nextval = todos_id_seq db + 1
           in if nextval > 2147483647 then Inl SequenceExhausted
              else
                (let todo = insert_defaults (insertTodo\<lparr>insert_text := stored\<rparr>) (of_nat nextval) now
                 in Inr (todo, db\<lparr>todos := todos db @ [todo], todos_id_seq := nextval\<rparr>))))"

text \<open>The parameters of \<open>.set({ ...updates, updatedAt: new Date() })\<close>, as bound.\<close>

definition bind_updates :: "UpdateTodo \<Rightarrow> DatabaseError + UpdateTodo" where
  "bind_updates updates =
     (case update_text updates of
        None \<Rightarrow> Inr updates
      | Some s \<Rightarrow>
          (case bind_text s of
             Inl error \<Rightarrow> Inl error
           | Inr stored \<Rightarrow> Inr (updates\<lparr>update_text := Some stored\<rparr>)))"

text \<open>\<open>.set({ ...updates, updatedAt: new Date() })\<close> on one row, at server time \<open>now\<close>.\<close>

definition set_columns :: "UpdateTodo \<Rightarrow> int \<Rightarrow> Todo \<Rightarrow> Todo" where
  "set_columns updates now t =
     t\<lparr>todo_text := (case update_text updates of None \<Rightarrow> todo_text t | Some s \<Rightarrow> s),
       completed := (case update_completed updates of None \<Rightarrow> completed t | Some b \<Rightarrow> b),
       updatedAt := now\<rparr>"

text \<open>
  \<open>db.update(todos).set(...).where(eq(todos.id, id)).returning()\<close>: every row with
  the id is rewritten in place, the rewritten rows are returned, and the method
  answers with the first of them or \<open>undefined\<close>.
\<close>

definition updateTodo ::
  "number \<Rightarrow> UpdateTodo \<Rightarrow> int \<Rightarrow> database \<Rightarrow> DatabaseError + Todo option \<times> database" where
  "updateTodo id_number updates now db =
     (case bind_updates updates of
        Inl error \<Rightarrow> Inl error
      | Inr bound \<Rightarrow>
          (case bind_integer id_number of
             Inl error \<Rightarrow> Inl error
           | Inr i \<Rightarrow>
               (let returning = map (set_columns bound now)
                                  (filter (\<lambda>t. todo_id t = i) (todos db));
                    db' = db\<lparr>todos := map (\<lambda>t. if todo_id t = i then set_columns bound now t
                                              else t) (todos db)\<rparr>
                in Inr ((case returning of [] \<Rightarrow> None | todo # _ \<Rightarrow> Some todo), db'))))"

text \<open>\<open>db.delete(todos).where(eq(todos.id, id))\<close>, then \<open>result.rowCount > 0\<close>.\<close>

definition deleteTodo :: "number \<Rightarrow> database \<Rightarrow> DatabaseError + bool \<times> database" where
  "deleteTodo id_number db =
     (case bind_integer id_number of
        Inl error \<Rightarrow> Inl error
      | Inr i \<Rightarrow>
          (let rowCount = length (filter (\<lambda>t. todo_id t = i) (todos db));
               db' = db\<lparr>todos := filter (\<lambda>t. todo_id t \<noteq> i) (todos db)\<rparr>
           in Inr (rowCount > 0, db')))"

text \<open>
  What the table guarantees between requests: \<open>id\<close> is a primary key, and every id
  in use was drawn from the sequence.
\<close>

definition store_inv :: "database \<Rightarrow> bool" where
  "store_inv db \<longleftrightarrow>
     distinct (map todo_id (todos db)) \<and>
     list_all (\<lambda>t. sint (todo_id t) \<le> int (todos_id_seq db)) (todos db)"

definition ids :: "database \<Rightarrow> 32 word set" where
  "ids db = todo_id ` set (todos db)"

text \<open>The stores that the three writing methods can produce from the empty table.\<close>

inductive reachable :: "database \<Rightarrow> bool" where
  initial: "reachable empty_database"
| created: "reachable db \<Longrightarrow> createTodo insertTodo now db = Inr (todo, db') \<Longrightarrow> reachable db'"
| updated: "reachable db \<Longrightarrow> updateTodo n updates now db = Inr (result, db') \<Longrightarrow> reachable db'"
| deleted: "reachable db \<Longrightarrow> deleteTodo n db = Inr (removed, db') \<Longrightarrow> reachable db'"

section \<open>The HTTP handlers of registerRoutes\<close>

text \<open>
  A request body after \<open>express.json()\<close>. Numbers are kept to the integers; the
  handlers never look at one.
\<close>

datatype json =
  JNull
  | JBool bool
  | JNumber int
  | JString jsstring
  | JArray "json list"
  | JObject "(jsstring \<times> json) list"

text \<open>
  \<open>schema.safeParse(body)\<close> either fails with a \<open>ZodError\<close> (its issues) or succeeds
  with the parsed data. The two schemas \<open>insertTodoSchema\<close> and \<open>updateTodoSchema\<close>
  are declared in \<open>@shared/schema\<close>, which is not among the sources: the handlers
  below take them as a parameter.
\<close>

datatype ZodError = ZodError "string list"

type_synonym 'a schema = "json \<Rightarrow> ZodError + 'a"

text \<open>
  Modelled from the spec: \<open>insertTodoSchema\<close> of \<open>@shared/schema\<close>, which is not among
  the sources. The body of a create request is \<open>{ text: string }\<close>, and the store
  "fails with ValidationError when text is missing/empty/wrong type". Keys other than
  \<open>text\<close> are dropped.
\<close>

definition insertTodoSchema :: "InsertTodo schema" where
  "insertTodoSchema req_body =
     (case req_body of
        JObject members \<Rightarrow>
          (case map_of members (str ''text'') of
             None \<Rightarrow> Inl (ZodError [''text: Required''])
           | Some (JString s) \<Rightarrow>
               if s = [] then Inl (ZodError [''text: empty''])
               else Inr \<lparr>insert_text = s\<rparr>
           | Some _ \<Rightarrow> Inl (ZodError [''text: Expected string'']))
      | _ \<Rightarrow> Inl (ZodError [''Expected object'']))"

text \<open>
  Modelled from the spec: the optional member \<open>text\<close> of \<open>updateTodoSchema\<close>, which
  is declared in \<open>@shared/schema\<close> and is not among the sources. The body of an
  update request is \<open>{ text?: string, completed?: boolean }\<close>, and "supplied fields
  must pass the same shape validation as create": a non-empty string when it is there.
\<close>

definition optional_text :: "(jsstring \<times> json) list \<Rightarrow> ZodError + jsstring option" where
  "optional_text members =
     (case map_of members (str ''text'') of
        None \<Rightarrow> Inr None
      | Some (JString s) \<Rightarrow>
          if s = [] then Inl (ZodError [''text: empty'']) else Inr (Some s)
      | Some _ \<Rightarrow> Inl (ZodError [''text: Expected string'']))"

text \<open>
  Modelled from the spec: the optional member \<open>completed\<close> of \<open>updateTodoSchema\<close>, a
  boolean when it is there.
\<close>

definition optional_completed :: "(jsstring \<times> json) list \<Rightarrow> ZodError + bool option" where
  "optional_completed members =
     (case map_of members (str ''completed'') of
        None \<Rightarrow> Inr None
      | Some (JBool b) \<Rightarrow> Inr (Some b)
      | Some _ \<Rightarrow> Inl (ZodError [''completed: Expected boolean'']))"

text \<open>
  Modelled from the spec: \<open>updateTodoSchema\<close> itself, an object with the two optional
  members; other keys are dropped.
\<close>

definition updateTodoSchema :: "UpdateTodo schema" where
  "updateTodoSchema req_body =
     (case req_body of
        JObject members \<Rightarrow>
          (case optional_text members of
             Inl error \<Rightarrow> Inl error
           | Inr text_opt \<Rightarrow>
               (case optional_completed members of
                  Inl error \<Rightarrow> Inl error
                | Inr completed_opt \<Rightarrow>
                    Inr \<lparr>update_text = text_opt, update_completed = completed_opt\<rparr>))
      | _ \<Rightarrow> Inl (ZodError [''Expected object'']))"

text \<open>
  A response: the status and the JSON sent. \<open>Validation_message e\<close> stands for
  \<open>{ message: fromZodError(e).toString() }\<close>.
\<close>

datatype body =
  Todo_list "Todo list"
  | Todo_json Todo
  | Message string
  | Validation_message ZodError
  | No_body

datatype response = Response (status: nat) (sent: body)

text \<open>\<open>app.get("/api/todos")\<close>\<close>

definition get_api_todos :: "database \<Rightarrow> response \<times> database" where
  "get_api_todos db = (Response 200 (Todo_list (getAllTodos db)), db)"

text \<open>
  \<open>app.post("/api/todos")\<close>; \<open>schema\<close> is the source's \<open>insertTodoSchema\<close>. A query
  that raises lands in the \<open>catch\<close>.
\<close>

definition post_api_todos ::
  "InsertTodo schema \<Rightarrow> json \<Rightarrow> int \<Rightarrow> database \<Rightarrow> response \<times> database" where
  "post_api_todos schema req_body now db =
     (case schema req_body of
        Inl error \<Rightarrow> (Response 400 (Validation_message error), db)
      | Inr data \<Rightarrow>
          (case createTodo data now db of
             Inl error \<Rightarrow> (Response 500 (Message ''Failed to create todo''), db)
           | Inr (todo, db') \<Rightarrow> (Response 201 (Todo_json todo), db')))"

text \<open>\<open>app.put("/api/todos/:id")\<close>; \<open>schema\<close> is the source's \<open>updateTodoSchema\<close>.\<close>

definition put_api_todos_id ::
  "UpdateTodo schema \<Rightarrow> jsstring \<Rightarrow> json \<Rightarrow> int \<Rightarrow> database \<Rightarrow> response \<times> database" where
  "put_api_todos_id schema params_id req_body now db =
     (let id_number = parseInt params_id
      in if id_number = NaN then (Response 400 (Message ''Invalid todo ID''), db)
         else
           (case schema req_body of
              Inl error \<Rightarrow> (Response 400 (Validation_message error), db)
            | Inr data \<Rightarrow>
                (case updateTodo id_number data now db of
                   Inl error \<Rightarrow> (Response 500 (Message ''Failed to update todo''), db)
                 | Inr (None, db') \<Rightarrow> (Response 404 (Message ''Todo not found''), db')
                 | Inr (Some todo, db') \<Rightarrow> (Response 200 (Todo_json todo), db'))))"

text \<open>\<open>app.delete("/api/todos/:id")\<close>\<close>

definition delete_api_todos_id :: "jsstring \<Rightarrow> database \<Rightarrow> response \<times> database" where
  "delete_api_todos_id params_id db =
     (let id_number = parseInt params_id
      in if id_number = NaN then (Response 400 (Message ''Invalid todo ID''), db)
         else
           (case deleteTodo id_number db of
              Inl error \<Rightarrow> (Response 500 (Message ''Failed to delete todo''), db)
            | Inr (False, db') \<Rightarrow> (Response 404 (Message ''Todo not found''), db')
            | Inr (True, db') \<Rightarrow> (Response 204 No_body, db')))"

text \<open>
  The statuses the spec's error taxonomy names as errors: 400 (ValidationError),
  404 (NotFoundError) and 500 (StorageError) are all in the range that
  \<open>Response.ok\<close> is false for.
\<close>

definition is_error :: "response \<Rightarrow> bool" where
  "is_error r \<longleftrightarrow> 400 \<le> status r"

section \<open>The Home component\<close>

datatype FilterType = All | Active | Completed

text \<open>
  The component's own state, the four \<open>useState\<close> cells. \<open>editingId\<close> is
  \<open>number | null\<close>.
\<close>

record view =
  newTodoText :: jsstring
  activeFilter :: FilterType
  editingId :: "int option"
  editingText :: jsstring

text \<open>
  On the client an id is the JavaScript number read from the JSON of a task,
  \<open>sint (todo_id todo)\<close>.
\<close>

text \<open>
  What a handler asks of its surroundings: a call of \<open>mutate\<close> on one of the three
  mutations with its argument (\<open>updateTodoMutation\<close> gets \<open>{ id, updates }\<close>, where
  \<open>editingId!\<close> passes the cell's content on as it is), an invalidation of the
  cached list, a toast.
\<close>

datatype effect =
  CreateTodoMutation jsstring
  | UpdateTodoMutation "int option" UpdateTodo
  | DeleteTodoMutation int
  | InvalidateQueries
  | Toast string string

definition handleToggleComplete :: "Todo \<Rightarrow> view \<Rightarrow> view \<times> effect list" where
  "handleToggleComplete todo v =
     (v, [UpdateTodoMutation (Some (sint (todo_id todo)))
            \<lparr>update_text = None, update_completed = Some (\<not> completed todo)\<rparr>])"

definition startEditing :: "Todo \<Rightarrow> view \<Rightarrow> view \<times> effect list" where
  "startEditing todo v =
     (v\<lparr>editingId := Some (sint (todo_id todo)), editingText := todo_text todo\<rparr>, [])"

definition cancelEditing :: "view \<Rightarrow> view \<times> effect list" where
  "cancelEditing v = (v\<lparr>editingId := None, editingText := []\<rparr>, [])"

definition saveEditing :: "view \<Rightarrow> view \<times> effect list" where
  "saveEditing v =
     (if trim (editingText v) = [] then (v, [])
      else (v\<lparr>editingId := None, editingText := []\<rparr>,
            [UpdateTodoMutation (editingId v)
               \<lparr>update_text = Some (trim (editingText v)), update_completed = None\<rparr>]))"

text \<open>The callbacks of \<open>updateTodoMutation\<close>, run when the request has been answered.\<close>

definition updateTodoMutation_onSuccess :: "view \<Rightarrow> view \<times> effect list" where
  "updateTodoMutation_onSuccess v =
     (v, [InvalidateQueries, Toast ''Success'' ''Task updated successfully!''])"

definition updateTodoMutation_onError :: "view \<Rightarrow> view \<times> effect list" where
  "updateTodoMutation_onError v =
     (v, [Toast ''Error'' ''Failed to update task. Please try again.''])"

text \<open>
  The values derived on every render from the fetched list (\<open>todos\<close> in the source,
  \<open>fetched\<close> here) and the selected filter.
\<close>

definition getFilteredTodos :: "FilterType \<Rightarrow> Todo list \<Rightarrow> Todo list" where
  "getFilteredTodos selected fetched =
     (case selected of
        Active \<Rightarrow> filter (\<lambda>todo. \<not> completed todo) fetched
      | Completed \<Rightarrow> filter (\<lambda>todo. completed todo) fetched
      | _ \<Rightarrow> fetched)"

text \<open>JavaScript numbers: the subtraction does not stop at zero, so these are integers.\<close>

definition totalTodos :: "Todo list \<Rightarrow> int" where
  "totalTodos fetched = int (length fetched)"

definition completedTodos :: "Todo list \<Rightarrow> int" where
  "completedTodos fetched = int (length (filter (\<lambda>todo. completed todo) fetched))"

definition pendingTodos :: "Todo list \<Rightarrow> int" where
  "pendingTodos fetched = totalTodos fetched - completedTodos fetched"

section \<open>Example data\<close>

text \<open>
  A store after two creations, the second task completed later; used where a
  statement is instantiated.
\<close>

definition example_database :: database where
  "example_database =
     \<lparr>todos =
        [\<lparr>todo_id = 1, todo_text = str ''Buy milk'', completed = False,
          createdAt = 1000, updatedAt = 1000\<rparr>,
         \<lparr>todo_id = 2, todo_text = str ''Walk the dog'', completed = True,
          createdAt = 2000, updatedAt = 3000\<rparr>],
      todos_id_seq = 2\<rparr>"

text \<open>A view with the task of id 1 in edit mode and a given draft.\<close>

definition example_view :: "jsstring \<Rightarrow> view" where
  "example_view draft =
     \<lparr>newTodoText = [], activeFilter = All, editingId = Some 1, editingText = draft\<rparr>"
section \<open>Binding parameters\<close>

lemma bind_integer_sint: "bind_integer (Integral (sint i)) = Inr i"
proof -
  have "- 2147483648 \<le> sint i" and "sint i \<le> 2147483647"
    using sint_ge [of i] sint_lt [of i] by simp_all
  then show ?thesis by (simp add: bind_integer_def)
qed

lemma bind_integer_Unsafe: "bind_integer (Unsafe negative) = Inl BadInteger"
  by (simp add: bind_integer_def)

lemma bind_integer_Inr_iff:
  "bind_integer n = Inr i \<longleftrightarrow> n = Integral (sint i)"
proof
  assume "bind_integer n = Inr i"
  then obtain k where n: "n = Integral k" and range: "- 2147483648 \<le> k" "k \<le> 2147483647"
    and i: "i = word_of_int k"
    by (auto simp: bind_integer_def split: number.splits if_splits)
  from range have "sint (word_of_int k :: 32 word) = k"
    by (simp add: sint_sbintrunc' signed_take_bit_int_eq_self)
  with n i show "n = Integral (sint i)" by simp
next
  assume "n = Integral (sint i)"
  then show "bind_integer n = Inr i" by (simp add: bind_integer_sint)
qed

lemma bind_updates_no_text:
  "update_text updates = None \<Longrightarrow> bind_updates updates = Inr updates"
  by (simp add: bind_updates_def)

lemma toWellFormed_plain:
  "\<forall>c \<in> set s. \<not> isHighSurrogate c \<and> \<not> isLowSurrogate c \<Longrightarrow> toWellFormed s = s"
  by (induction s rule: toWellFormed.induct) auto

section \<open>Rows that an id selects\<close>

lemma filter_other_ids: "i \<notin> todo_id ` set xs \<Longrightarrow> filter (\<lambda>t. todo_id t \<noteq> i) xs = xs"
  by (induction xs) auto

lemma filter_this_id_Nil: "i \<notin> todo_id ` set xs \<Longrightarrow> filter (\<lambda>t. todo_id t = i) xs = []"
  by (induction xs) auto

lemma map_other_ids:
  "i \<notin> todo_id ` set xs \<Longrightarrow> map (\<lambda>t. if todo_id t = i then f t else t) xs = xs"
  by (induction xs) auto

lemma set_columns_id [simp]: "todo_id (set_columns u now t) = todo_id t"
  by (simp add: set_columns_def)

lemma todo_id_after_set:
  "todo_id \<circ> (\<lambda>t. if todo_id t = i then set_columns u now t else t) = todo_id"
  by (auto simp: fun_eq_iff)

lemma deleteTodo_absent:
  "bind_integer n = Inr i \<Longrightarrow> i \<notin> ids db \<Longrightarrow> deleteTodo n db = Inr (False, db)"
  by (simp add: deleteTodo_def ids_def filter_other_ids filter_this_id_Nil)

lemma deleteTodo_raises: "bind_integer n = Inl e \<Longrightarrow> deleteTodo n db = Inl e"
  by (simp add: deleteTodo_def)

lemma deleteTodo_ids:
  "bind_integer n = Inr i \<Longrightarrow> deleteTodo n db = Inr (removed, db') \<Longrightarrow> ids db' = ids db - {i}"
  by (auto simp: deleteTodo_def ids_def)

lemma updateTodo_absent:
  "bind_updates u = Inr bound \<Longrightarrow> bind_integer n = Inr i \<Longrightarrow> i \<notin> ids db \<Longrightarrow>
     updateTodo n u now db = Inr (None, db)"
  by (simp add: updateTodo_def ids_def map_other_ids filter_this_id_Nil)

lemma updateTodo_raises_id:
  "bind_integer n = Inl e \<Longrightarrow> \<exists>e'. updateTodo n u now db = Inl e'"
  by (simp add: updateTodo_def split: sum.splits)

lemma updateTodo_raises_text:
  "bind_updates u = Inl e \<Longrightarrow> updateTodo n u now db = Inl e"
  by (simp add: updateTodo_def)

lemma updateTodo_Inr:
  "bind_updates u = Inr bound \<Longrightarrow> bind_integer n = Inr i \<Longrightarrow>
     updateTodo n u now db =
       Inr ((case map (set_columns bound now) (filter (\<lambda>t. todo_id t = i) (todos db)) of
               [] \<Rightarrow> None | todo # _ \<Rightarrow> Some todo),
            db\<lparr>todos := map (\<lambda>t. if todo_id t = i then set_columns bound now t else t)
                           (todos db)\<rparr>)"
  by (simp add: updateTodo_def)

lemma filter_this_id_distinct:
  "distinct (map todo_id xs) \<Longrightarrow> t \<in> set xs \<Longrightarrow> filter (\<lambda>r. todo_id r = todo_id t) xs = [t]"
proof (induction xs)
  case Nil
  then show ?case by simp
next
  case (Cons x xs)
  show ?case
  proof (cases "x = t")
    case True
    with Cons.prems have "todo_id t \<notin> todo_id ` set xs" by simp
    then show ?thesis using True by (simp add: filter_this_id_Nil)
  next
    case False
    with Cons.prems have "t \<in> set xs" and "todo_id x \<noteq> todo_id t" by auto
    with Cons show ?thesis by simp
  qed
qed

lemma first_with_id:
  assumes "i \<in> todo_id ` set xs"
  shows "\<exists>t \<in> set xs. todo_id t = i \<and>
           (case map f (filter (\<lambda>t. todo_id t = i) xs) of [] \<Rightarrow> None | r # _ \<Rightarrow> Some r) =
             Some (f t)"
proof -
  from assms have "filter (\<lambda>t. todo_id t = i) xs \<noteq> []"
    by (auto simp: filter_empty_conv)
  then obtain t ts where eq: "filter (\<lambda>t. todo_id t = i) xs = t # ts"
    by (cases "filter (\<lambda>t. todo_id t = i) xs") auto
  then have "t \<in> set (filter (\<lambda>t. todo_id t = i) xs)" by simp
  then have "t \<in> set xs" "todo_id t = i" by auto
  then show ?thesis by (auto simp: eq)
qed

section \<open>The table invariant\<close>

lemma store_inv_empty: "store_inv empty_database"
  by (simp add: store_inv_def empty_database_def)

lemma sint_nextval:
  assumes "n + 1 \<le> 2147483647"
  shows "sint (of_nat (n + 1) :: 32 word) = int n + 1"
proof -
  let ?k = "int n + 1"
  have "sint (word_of_int ?k :: 32 word) = signed_take_bit (LENGTH(32) - 1) ?k"
    by (rule sint_sbintrunc')
  also have "\<dots> = ?k"
    by (rule signed_take_bit_int_eq_self) (use assms in simp_all)
  finally have exact: "sint (word_of_int ?k :: 32 word) = ?k" .
  have "(of_nat (n + 1) :: 32 word) = word_of_int ?k"
    by simp
  then show ?thesis
    by (simp only: exact)
qed

lemma createTodo_Inr:
  assumes "createTodo v now db = Inr (t, db')"
  shows "0 \<notin> set (insert_text v)" and "todos_id_seq db + 1 \<le> 2147483647"
    and "t = insert_defaults (v\<lparr>insert_text := toWellFormed (insert_text v)\<rparr>)
               (of_nat (todos_id_seq db + 1)) now"
    and "db' = db\<lparr>todos := todos db @ [t], todos_id_seq := todos_id_seq db + 1\<rparr>"
  using assms
  by (auto simp: createTodo_def bind_text_def Let_def split: if_splits)

lemma createTodo_succeeds:
  assumes "0 \<notin> set (insert_text v)" and "todos_id_seq db < 2147483647"
  shows "\<exists>t db'. createTodo v now db = Inr (t, db')"
  using assms by (simp add: createTodo_def bind_text_def Let_def)

lemma store_inv_createTodo:
  assumes "store_inv db" and "createTodo v now db = Inr (t, db')"
  shows "store_inv db'" and "todo_id t \<notin> ids db"
proof -
  note c = createTodo_Inr [OF assms(2)]
  have id: "sint (todo_id t) = int (todos_id_seq db) + 1"
    by (simp only: c(3) insert_defaults_def Todo.select_convs sint_nextval [OF c(2)])
  from assms(1) have below: "\<forall>r \<in> set (todos db). sint (todo_id r) \<le> int (todos_id_seq db)"
    by (simp add: store_inv_def list_all_iff)
  show fresh: "todo_id t \<notin> ids db"
  proof
    assume "todo_id t \<in> ids db"
    then obtain r where "r \<in> set (todos db)" and "todo_id r = todo_id t"
      by (auto simp: ids_def)
    with below id show False by fastforce
  qed
  from assms(1) fresh id below show "store_inv db'"
    by (fastforce simp: c(4) store_inv_def ids_def list_all_iff)
qed

lemma store_inv_updateTodo:
  "store_inv db \<Longrightarrow> updateTodo n u now db = Inr (result, db') \<Longrightarrow> store_inv db'"
  by (auto simp: store_inv_def updateTodo_def todo_id_after_set list_all_iff Let_def
      split: sum.splits)

lemma store_inv_deleteTodo:
  "store_inv db \<Longrightarrow> deleteTodo n db = Inr (removed, db') \<Longrightarrow> store_inv db'"
  by (auto simp: store_inv_def deleteTodo_def list_all_iff distinct_map_filter Let_def
      split: sum.splits)

lemma reachable_store_inv: "reachable db \<Longrightarrow> store_inv db"
  by (induction rule: reachable.induct)
     (auto intro: store_inv_empty store_inv_createTodo(1) store_inv_updateTodo
        store_inv_deleteTodo)

lemma store_inv_example: "store_inv example_database"
  by (simp add: store_inv_def example_database_def)

section \<open>parseInt and the leading integer\<close>

lemma isRadixDigit_10: "isRadixDigit 10 = isDecimalDigit"
  unfolding isRadixDigit_def digitValue_def isDecimalDigit_def fun_eq_iff
  by (auto simp: word_le_nat_alt)

lemma isRadixDigit_16: "isRadixDigit 16 = isHexDigit"
  unfolding isRadixDigit_def digitValue_def isHexDigit_def isDecimalDigit_def fun_eq_iff
  by (auto simp: word_le_nat_alt)

lemma takeWhile_Nil_iff: "takeWhile P s = [] \<longleftrightarrow> \<not> startsWith P s"
  by (cases s) (auto simp: startsWith_def)

lemma hexPrefixed_iff:
  "hexPrefixed S \<longleftrightarrow> length S \<ge> 2 \<and> take 2 S \<in> {str ''0x'', str ''0X''}"
proof (cases S)
  case Nil
  then show ?thesis by (simp add: hexPrefixed_def)
next
  case (Cons c cs)
  then show ?thesis
    by (cases cs) (auto simp: hexPrefixed_def str_def)
qed

lemma afterSign_eq:
  "afterSign S = (if S \<noteq> [] \<and> (hd S = 0x2B \<or> hd S = 0x2D) then tl S else S)"
  by (cases S) (auto simp: afterSign_def)

lemma minus_first: "startsWith (\<lambda>c. c = 0x2D) S \<longleftrightarrow> S \<noteq> [] \<and> hd S = 0x2D"
  by (cases S) (auto simp: startsWith_def)

text \<open>The steps of \<open>parseInt\<close>, regrouped around the sign and the prefix.\<close>

lemma parseInt_staged:
  "parseInt p =
     (let S = afterSign (trimStart p);
          R = (if hexPrefixed S then 16 else 10);
          Z = takeWhile (isRadixDigit R) (if hexPrefixed S then drop 2 S else S)
      in if Z = [] then NaN
         else toNumber
                ((if startsWith (\<lambda>c. c = 0x2D) (trimStart p) then - 1 else 1) * mathInt R Z))"
  unfolding parseInt_def Let_def
  by (simp only: flip: afterSign_eq hexPrefixed_iff minus_first)

lemma toNumber_not_NaN [simp]: "toNumber k \<noteq> NaN"
  by (simp add: toNumber_def)

lemma parseInt_NaN_iff: "parseInt p = NaN \<longleftrightarrow> \<not> hasLeadingInteger p"
  by (cases "hexPrefixed (afterSign (trimStart p))")
     (simp_all add: parseInt_staged hasLeadingInteger_def Let_def takeWhile_Nil_iff
        isRadixDigit_10 isRadixDigit_16)

text \<open>Reading the digits from the left, as \<open>mathInt\<close> does, gives the weighted sum.\<close>

lemma foldl_digits:
  "foldl (\<lambda>a c. a * int R + int (digitValue c)) a Z = a * int R ^ length Z + radixValue R Z"
  by (induction Z arbitrary: a) (simp_all add: algebra_simps)

lemma mathInt_radixValue: "mathInt R Z = radixValue R Z"
  by (simp add: mathInt_def foldl_digits)

lemma parseInt_value: "hasLeadingInteger p \<Longrightarrow> parseInt p = toNumber (leadingInteger p)"
  by (cases "hexPrefixed (afterSign (trimStart p))")
     (simp_all add: parseInt_staged hasLeadingInteger_def leadingInteger_def Let_def
        takeWhile_Nil_iff isRadixDigit_10 isRadixDigit_16 mathInt_radixValue)

lemma not_ws_digit: "isDecimalDigit c \<Longrightarrow> \<not> isWhiteSpace c"
  unfolding isDecimalDigit_def isWhiteSpace_def
  by (auto simp: word_le_nat_alt)

lemma decimal_run:
  assumes "digits \<noteq> []" and "list_all isDecimalDigit digits"
    and "\<not> startsWith isDecimalDigit rest"
    and "\<not> (digits = str ''0'' \<and> startsWith (\<lambda>c. c = 0x78 \<or> c = 0x58) rest)"
  shows "hasLeadingInteger (digits @ rest)"
    and "leadingInteger (digits @ rest) = radixValue 10 digits"
proof -
  obtain d ds where digits: "digits = d # ds"
    using assms(1) by (cases digits) auto
  have d: "isDecimalDigit d"
    using assms(2) digits by simp
  have trimmed: "trimStart (digits @ rest) = digits @ rest"
    using d by (simp add: trimStart_def digits not_ws_digit)
  have unsigned: "afterSign (digits @ rest) = digits @ rest"
    and plus: "\<not> startsWith (\<lambda>c. c = 0x2D) (digits @ rest)"
    using d by (auto simp: afterSign_def startsWith_def digits isDecimalDigit_def)
  have nohex: "\<not> hexPrefixed (digits @ rest)"
  proof (cases ds)
    case Nil
    then show ?thesis
      using assms(4) digits
      by (cases rest) (auto simp: hexPrefixed_def str_def startsWith_def)
  next
    case (Cons e es)
    then have "isDecimalDigit e" using assms(2) digits by simp
    then show ?thesis
      using Cons digits by (auto simp: hexPrefixed_def isDecimalDigit_def)
  qed
  have run: "takeWhile isDecimalDigit (digits @ rest) = digits"
  proof -
    have "takeWhile isDecimalDigit (digits @ rest) = digits @ takeWhile isDecimalDigit rest"
      using assms(2) by (simp add: takeWhile_append2 list_all_iff)
    then show ?thesis using assms(3) by (simp add: takeWhile_Nil_iff)
  qed
  have "hasLeadingInteger (digits @ rest) = startsWith isDecimalDigit (digits @ rest)"
    by (simp add: hasLeadingInteger_def trimmed unsigned nohex)
  then show "hasLeadingInteger (digits @ rest)"
    using d by (simp add: digits startsWith_def)
  show "leadingInteger (digits @ rest) = radixValue 10 digits"
    by (simp add: leadingInteger_def trimmed unsigned nohex plus run)
qed

subsection \<open>Evaluating parseInt\<close>

lemmas parseInt_eval =
  parseInt_def str_def trimStart_def isWhiteSpace_def isRadixDigit_def digitValue_def
  mathInt_def toNumber_def Let_def

lemma parseInt_7: "parseInt (str ''7'') = Integral 7"
  by (simp add: parseInt_eval)

lemma parseInt_2: "parseInt (str ''2'') = Integral 2"
  by (simp add: parseInt_eval)

lemma parseInt_twenty_nines: "parseInt (str ''99999999999999999999'') = Unsafe False"
  by (simp add: parseInt_eval)

section \<open>Deleting\<close>

text \<open>
  Claim C1 as the code has it. For an id of the column's range that no row has,
  \<open>deleteTodo\<close> raises nothing, removes nothing and returns \<open>false\<close>; the DELETE
  handler turns that \<open>false\<close> into the not-found response, status 404 with the
  message \<open>Todo not found\<close>, and the store stays as it was. Once \<open>deleteTodo\<close> has
  returned for an id, deleting that id again returns \<open>false\<close> and changes nothing.
  For an id that the column cannot hold the query raises, and the handler answers
  500 with \<open>Failed to delete todo\<close>, the store unchanged.
\<close>

theorem delete_absent_id:
  "(bind_integer n = Inr i \<and> i \<notin> ids db \<longrightarrow>
      deleteTodo n db = Inr (False, db) \<and>
      (\<forall>p. parseInt p = n \<longrightarrow>
         delete_api_todos_id p db = (Response 404 (Message ''Todo not found''), db))) \<and>
   (\<forall>removed db'. deleteTodo n db = Inr (removed, db') \<longrightarrow>
      deleteTodo n db' = Inr (False, db')) \<and>
   (\<forall>e. bind_integer n = Inl e \<longrightarrow>
      deleteTodo n db = Inl e \<and>
      (\<forall>p. parseInt p = n \<and> n \<noteq> NaN \<longrightarrow>
         delete_api_todos_id p db = (Response 500 (Message ''Failed to delete todo''), db)))"
proof (intro conjI impI allI)
  assume a: "bind_integer n = Inr i \<and> i \<notin> ids db"
  then show absent: "deleteTodo n db = Inr (False, db)"
    by (simp add: deleteTodo_absent)
  fix p
  assume "parseInt p = n"
  moreover from a have "n \<noteq> NaN"
    by (auto simp: bind_integer_def)
  ultimately show "delete_api_todos_id p db = (Response 404 (Message ''Todo not found''), db)"
    using absent by (simp add: delete_api_todos_id_def)
next
  fix removed db'
  assume returned: "deleteTodo n db = Inr (removed, db')"
  then obtain i where i: "bind_integer n = Inr i"
    by (cases "bind_integer n") (auto simp: deleteTodo_def)
  then have "i \<notin> ids db'"
    using deleteTodo_ids [OF i returned] by simp
  with i show "deleteTodo n db' = Inr (False, db')"
    by (rule deleteTodo_absent)
next
  fix e
  assume e: "bind_integer n = Inl e"
  then show raised: "deleteTodo n db = Inl e"
    by (rule deleteTodo_raises)
  fix p
  assume "parseInt p = n \<and> n \<noteq> NaN"
  then show "delete_api_todos_id p db = (Response 500 (Message ''Failed to delete todo''), db)"
    using raised by (simp add: delete_api_todos_id_def)
qed

theorem delete_absent_id_witness:
  "bind_integer (Integral 7) = Inr 7 \<and> 7 \<notin> ids example_database \<and>
   deleteTodo (Integral 7) example_database = Inr (False, example_database) \<and>
   delete_api_todos_id (str ''7'') example_database =
     (Response 404 (Message ''Todo not found''), example_database) \<and>
   bind_integer (Unsafe False) = Inl BadInteger \<and>
   delete_api_todos_id (str ''99999999999999999999'') example_database =
     (Response 500 (Message ''Failed to delete todo''), example_database)"
proof -
  have seven: "bind_integer (Integral 7) = Inr 7"
    by (simp add: bind_integer_def)
  have absent: "7 \<notin> ids example_database"
    by (simp add: ids_def example_database_def)
  have huge: "bind_integer (Unsafe False) = Inl BadInteger" "Unsafe False \<noteq> NaN"
    by (simp_all add: bind_integer_def)
  show ?thesis
    using seven absent huge parseInt_7 parseInt_twenty_nines
      delete_absent_id [of "Integral 7" 7 example_database]
      delete_absent_id [of "Unsafe False" 7 example_database]
    by blast
qed

text \<open>
  Claim C1 as the spec words it says that deleting an id without a row is no
  error. Over HTTP it is one: the handler answers with status 404, the status of
  the spec's NotFoundError.
\<close>

theorem delete_absent_id_is_error:
  "7 \<notin> ids example_database \<and>
   is_error (fst (delete_api_todos_id (str ''7'') example_database)) \<and>
   fst (delete_api_todos_id (str ''7'') example_database) =
     Response 404 (Message ''Todo not found'')"
  by (simp add: delete_api_todos_id_def parseInt_7 deleteTodo_def bind_integer_def
      example_database_def ids_def is_error_def)

section \<open>Creating\<close>

text \<open>
  Claim C2 as the code has it. On a store that satisfies the table invariant and
  whose sequence is not used up, for every text without the code unit 0,
  \<open>createTodo\<close> returns a record whose id no existing row has, with
  \<open>completed = false\<close> and \<open>createdAt = updatedAt\<close>; its text is the given one
  with U+FFFD for each unpaired surrogate, so the given one when it has no
  surrogate; the record is the one row added, and when the body passes
  \<open>insertTodoSchema\<close> the POST handler answers 201 with it. A text that holds the
  code unit 0 makes the insert raise: the handler answers 500 with
  \<open>Failed to create todo\<close> and the store is unchanged.
\<close>

theorem create_fresh:
  "(store_inv db \<and> 0 \<notin> set (insert_text v) \<and> todos_id_seq db < 2147483647 \<longrightarrow>
      (\<exists>t db'. createTodo v now db = Inr (t, db') \<and>
         todo_id t \<notin> ids db \<and>
         completed t = False \<and>
         createdAt t = updatedAt t \<and>
         todo_text t = toWellFormed (insert_text v) \<and>
         ((\<forall>c \<in> set (insert_text v). \<not> isHighSurrogate c \<and> \<not> isLowSurrogate c) \<longrightarrow>
            todo_text t = insert_text v) \<and>
         todos db' = todos db @ [t] \<and>
         store_inv db' \<and>
         (\<forall>schema req_body. schema req_body = Inr v \<longrightarrow>
            post_api_todos schema req_body now db = (Response 201 (Todo_json t), db')))) \<and>
   (0 \<in> set (insert_text v) \<longrightarrow>
      createTodo v now db = Inl BadText \<and>
      (\<forall>schema req_body. schema req_body = Inr v \<longrightarrow>
         post_api_todos schema req_body now db =
           (Response 500 (Message ''Failed to create todo''), db)))"
proof (intro conjI impI)
  assume a: "store_inv db \<and> 0 \<notin> set (insert_text v) \<and> todos_id_seq db < 2147483647"
  then obtain t db' where created: "createTodo v now db = Inr (t, db')"
    using createTodo_succeeds [of v db now] by blast
  note c = createTodo_Inr [OF created]
  have inv: "store_inv db'" and fresh: "todo_id t \<notin> ids db"
    using store_inv_createTodo [OF _ created] a by simp_all
  have shape: "completed t = False" "createdAt t = updatedAt t"
    "todo_text t = toWellFormed (insert_text v)"
    by (simp_all add: c(3) insert_defaults_def)
  have plain: "(\<forall>c \<in> set (insert_text v). \<not> isHighSurrogate c \<and> \<not> isLowSurrogate c) \<longrightarrow>
      todo_text t = insert_text v"
    by (simp add: shape(3) toWellFormed_plain)
  have rows: "todos db' = todos db @ [t]"
    by (simp add: c(4))
  have route: "\<forall>schema req_body. schema req_body = Inr v \<longrightarrow>
      post_api_todos schema req_body now db = (Response 201 (Todo_json t), db')"
    by (simp add: post_api_todos_def created)
  from created fresh shape plain rows inv route
  show "\<exists>t db'. createTodo v now db = Inr (t, db') \<and>
         todo_id t \<notin> ids db \<and>
         completed t = False \<and>
         createdAt t = updatedAt t \<and>
         todo_text t = toWellFormed (insert_text v) \<and>
         ((\<forall>c \<in> set (insert_text v). \<not> isHighSurrogate c \<and> \<not> isLowSurrogate c) \<longrightarrow>
            todo_text t = insert_text v) \<and>
         todos db' = todos db @ [t] \<and>
         store_inv db' \<and>
         (\<forall>schema req_body. schema req_body = Inr v \<longrightarrow>
            post_api_todos schema req_body now db = (Response 201 (Todo_json t), db'))"
    by blast
next
  assume nul: "0 \<in> set (insert_text v)"
  then show raised: "createTodo v now db = Inl BadText"
    by (simp add: createTodo_def bind_text_def)
  show "\<forall>schema req_body. schema req_body = Inr v \<longrightarrow>
      post_api_todos schema req_body now db =
        (Response 500 (Message ''Failed to create todo''), db)"
    by (simp add: post_api_todos_def raised)
qed

lemma createTodo_example:
  "createTodo \<lparr>insert_text = str ''Call mum''\<rparr> 5000 example_database =
     Inr (\<lparr>todo_id = 3, todo_text = str ''Call mum'', completed = False,
           createdAt = 5000, updatedAt = 5000\<rparr>,
          \<lparr>todos =
             [\<lparr>todo_id = 1, todo_text = str ''Buy milk'', completed = False,
               createdAt = 1000, updatedAt = 1000\<rparr>,
              \<lparr>todo_id = 2, todo_text = str ''Walk the dog'', completed = True,
               createdAt = 2000, updatedAt = 3000\<rparr>,
              \<lparr>todo_id = 3, todo_text = str ''Call mum'', completed = False,
               createdAt = 5000, updatedAt = 5000\<rparr>],
           todos_id_seq = 3\<rparr>)"
  by (simp add: createTodo_def bind_text_def insert_defaults_def example_database_def Let_def
      str_def isHighSurrogate_def isLowSurrogate_def)

theorem create_fresh_witness:
  "store_inv example_database \<and>
   0 \<notin> set (str ''Call mum'') \<and>
   todos_id_seq example_database < 2147483647 \<and>
   insertTodoSchema (JObject [(str ''text'', JString (str ''Call mum''))]) =
     Inr \<lparr>insert_text = str ''Call mum''\<rparr> \<and>
   3 \<notin> ids example_database \<and>
   post_api_todos insertTodoSchema (JObject [(str ''text'', JString (str ''Call mum''))]) 5000
       example_database =
     (Response 201 (Todo_json \<lparr>todo_id = 3, todo_text = str ''Call mum'', completed = False,
         createdAt = 5000, updatedAt = 5000\<rparr>),
      \<lparr>todos = todos example_database @
         [\<lparr>todo_id = 3, todo_text = str ''Call mum'', completed = False,
           createdAt = 5000, updatedAt = 5000\<rparr>],
       todos_id_seq = 3\<rparr>)"
proof -
  let ?v = "\<lparr>insert_text = str ''Call mum''\<rparr>"
  have accepted: "insertTodoSchema (JObject [(str ''text'', JString (str ''Call mum''))]) = Inr ?v"
    by (simp add: insertTodoSchema_def str_def)
  have clean: "0 \<notin> set (insert_text ?v)"
    by (simp add: str_def)
  have room: "todos_id_seq example_database < 2147483647"
    by (simp add: example_database_def)
  from create_fresh [of example_database ?v 5000] store_inv_example clean room
  obtain t db' where created: "createTodo ?v 5000 example_database = Inr (t, db')"
    and fresh: "todo_id t \<notin> ids example_database"
    and route: "\<forall>schema req_body. schema req_body = Inr ?v \<longrightarrow>
      post_api_todos schema req_body 5000 example_database = (Response 201 (Todo_json t), db')"
    by blast
  from created have "Inr (t, db') =
      (Inr (\<lparr>todo_id = 3, todo_text = str ''Call mum'', completed = False,
             createdAt = 5000, updatedAt = 5000\<rparr>,
            \<lparr>todos =
               [\<lparr>todo_id = 1, todo_text = str ''Buy milk'', completed = False,
                 createdAt = 1000, updatedAt = 1000\<rparr>,
                \<lparr>todo_id = 2, todo_text = str ''Walk the dog'', completed = True,
                 createdAt = 2000, updatedAt = 3000\<rparr>,
                \<lparr>todo_id = 3, todo_text = str ''Call mum'', completed = False,
                 createdAt = 5000, updatedAt = 5000\<rparr>],
             todos_id_seq = 3\<rparr>) :: DatabaseError + Todo \<times> database)"
    by (simp only: createTodo_example)
  then have t: "t = \<lparr>todo_id = 3, todo_text = str ''Call mum'', completed = False,
         createdAt = 5000, updatedAt = 5000\<rparr>"
    and db': "db' = \<lparr>todos = todos example_database @
         [\<lparr>todo_id = 3, todo_text = str ''Call mum'', completed = False,
           createdAt = 5000, updatedAt = 5000\<rparr>],
       todos_id_seq = 3\<rparr>"
    by (simp_all add: example_database_def)
  from route accepted have "post_api_todos insertTodoSchema
      (JObject [(str ''text'', JString (str ''Call mum''))]) 5000 example_database =
      (Response 201 (Todo_json t), db')"
    by blast
  with fresh t db' store_inv_example clean room accepted show ?thesis
    by simp
qed

text \<open>
  Claim C2 as the spec words it promises a record for every non-empty text. The
  text \<open>a\<close>, code unit 0, \<open>b\<close> is not empty and passes the schema, and the insert
  raises: the answer is 500 and the store keeps its two rows.
\<close>

theorem create_nul_text:
  "[0x61, 0, 0x62] \<noteq> ([] :: jsstring) \<and>
   insertTodoSchema (JObject [(str ''text'', JString [0x61, 0, 0x62])]) =
     Inr \<lparr>insert_text = [0x61, 0, 0x62]\<rparr> \<and>
   createTodo \<lparr>insert_text = [0x61, 0, 0x62]\<rparr> 5000 example_database = Inl BadText \<and>
   post_api_todos insertTodoSchema (JObject [(str ''text'', JString [0x61, 0, 0x62])]) 5000
       example_database =
     (Response 500 (Message ''Failed to create todo''), example_database)"
  by (simp add: insertTodoSchema_def post_api_todos_def createTodo_def bind_text_def str_def)

section \<open>Updating\<close>

text \<open>The update that toggling a task issues supplies \<open>completed\<close> and nothing else.\<close>

lemma handleToggleComplete_update:
  "handleToggleComplete todo v =
     (v, [UpdateTodoMutation (Some (sint (todo_id todo)))
            \<lparr>update_text = None, update_completed = Some (\<not> completed todo)\<rparr>])"
  by (simp add: handleToggleComplete_def)

text \<open>
  Claim C3. An update of an existing id that supplies only \<open>completed\<close> returns,
  and keeps the number and the order of the rows and the sequence; in every row the
  id, the text and \<open>createdAt\<close> stay; a row with another id stays as it is; a row
  with the id gets the new \<open>completed\<close> and \<open>updatedAt = now\<close>, and the record
  returned is such a row with just these two fields set.
\<close>

theorem update_completed_only:
  "i \<in> ids db \<Longrightarrow>
   updates = \<lparr>update_text = None, update_completed = Some b\<rparr> \<Longrightarrow>
     \<exists>r db'. updateTodo (Integral (sint i)) updates now db = Inr (r, db') \<and>
       length (todos db') = length (todos db) \<and>
       todos_id_seq db' = todos_id_seq db \<and>
       (\<forall>k < length (todos db).
          todo_id (todos db' ! k) = todo_id (todos db ! k) \<and>
          todo_text (todos db' ! k) = todo_text (todos db ! k) \<and>
          createdAt (todos db' ! k) = createdAt (todos db ! k) \<and>
          (if todo_id (todos db ! k) = i
           then completed (todos db' ! k) = b \<and> updatedAt (todos db' ! k) = now
           else todos db' ! k = todos db ! k)) \<and>
       (\<exists>t \<in> set (todos db). todo_id t = i \<and>
          r = Some (t\<lparr>completed := b, updatedAt := now\<rparr>))"
proof -
  assume present: "i \<in> ids db"
    and u: "updates = \<lparr>update_text = None, update_completed = Some b\<rparr>"
  let ?set = "\<lambda>t. t\<lparr>completed := b, updatedAt := now\<rparr>"
  let ?r = "case map (set_columns updates now) (filter (\<lambda>t. todo_id t = i) (todos db)) of
              [] \<Rightarrow> None | todo # _ \<Rightarrow> Some todo"
  let ?db' = "db\<lparr>todos := map (\<lambda>t. if todo_id t = i then set_columns updates now t else t)
                              (todos db)\<rparr>"
  have bound: "bind_updates updates = Inr updates"
    by (simp add: bind_updates_no_text u)
  have run: "updateTodo (Integral (sint i)) updates now db = Inr (?r, ?db')"
    using updateTodo_Inr [OF bound bind_integer_sint] .
  have set: "set_columns updates now t = ?set t" for t
    by (simp add: set_columns_def u)
  have rows: "todos ?db' = map (\<lambda>t. if todo_id t = i then ?set t else t) (todos db)"
    by (simp add: set)
  have len: "length (todos ?db') = length (todos db)"
    by simp
  have seq: "todos_id_seq ?db' = todos_id_seq db"
    by simp
  have frame: "\<forall>k < length (todos db).
        todo_id (todos ?db' ! k) = todo_id (todos db ! k) \<and>
        todo_text (todos ?db' ! k) = todo_text (todos db ! k) \<and>
        createdAt (todos ?db' ! k) = createdAt (todos db ! k) \<and>
        (if todo_id (todos db ! k) = i
         then completed (todos ?db' ! k) = b \<and> updatedAt (todos ?db' ! k) = now
         else todos ?db' ! k = todos db ! k)"
    by (simp add: set)
  have returned: "\<exists>t \<in> set (todos db). todo_id t = i \<and> ?r = Some (?set t)"
    using first_with_id [of i "todos db" "set_columns updates now"] present
    by (simp add: ids_def set)
  from run len seq frame returned show ?thesis
    by blast
qed

theorem update_completed_only_witness:
  "1 \<in> ids example_database \<and>
   updateTodo (Integral (sint (1 :: 32 word)))
       \<lparr>update_text = None, update_completed = Some True\<rparr> 7000 example_database =
     Inr (Some \<lparr>todo_id = 1, todo_text = str ''Buy milk'', completed = True,
            createdAt = 1000, updatedAt = 7000\<rparr>,
      \<lparr>todos =
        [\<lparr>todo_id = 1, todo_text = str ''Buy milk'', completed = True,
          createdAt = 1000, updatedAt = 7000\<rparr>,
         \<lparr>todo_id = 2, todo_text = str ''Walk the dog'', completed = True,
          createdAt = 2000, updatedAt = 3000\<rparr>],
       todos_id_seq = 2\<rparr>) \<and>
   (\<exists>r db'. updateTodo (Integral (sint (1 :: 32 word)))
       \<lparr>update_text = None, update_completed = Some True\<rparr> 7000 example_database =
       Inr (r, db') \<and> length (todos db') = length (todos example_database))"
proof -
  have present: "1 \<in> ids example_database"
    by (simp add: ids_def example_database_def)
  have run: "updateTodo (Integral (sint (1 :: 32 word)))
       \<lparr>update_text = None, update_completed = Some True\<rparr> 7000 example_database =
     Inr (Some \<lparr>todo_id = 1, todo_text = str ''Buy milk'', completed = True,
            createdAt = 1000, updatedAt = 7000\<rparr>,
      \<lparr>todos =
        [\<lparr>todo_id = 1, todo_text = str ''Buy milk'', completed = True,
          createdAt = 1000, updatedAt = 7000\<rparr>,
         \<lparr>todo_id = 2, todo_text = str ''Walk the dog'', completed = True,
          createdAt = 2000, updatedAt = 3000\<rparr>],
       todos_id_seq = 2\<rparr>)"
    by (simp add: updateTodo_def bind_updates_def bind_integer_def set_columns_def
        example_database_def)
  from update_completed_only [OF present refl, of True 7000]
  have "\<exists>r db'. updateTodo (Integral (sint (1 :: 32 word)))
       \<lparr>update_text = None, update_completed = Some True\<rparr> 7000 example_database =
       Inr (r, db') \<and> length (todos db') = length (todos example_database)"
    by blast
  with present run show ?thesis by blast
qed

text \<open>
  Claim C4 as the code has it. For an id of the column's range that no row has,
  \<open>updateTodo\<close> returns \<open>undefined\<close> and the store is the same afterwards, provided
  the text, if one is supplied, can be stored; the PUT handler then answers 404
  with \<open>Todo not found\<close> when the body passes \<open>updateTodoSchema\<close>, and 400 with the
  validation message when it does not. For an id that the column cannot hold, and
  for a text that holds the code unit 0, the query raises and the handler answers
  500 with \<open>Failed to update todo\<close>. The store is unchanged in each of these cases.
\<close>

theorem update_absent_id:
  "(bind_integer n = Inr i \<and> i \<notin> ids db \<and> bind_updates updates = Inr bound \<longrightarrow>
      updateTodo n updates now db = Inr (None, db) \<and>
      (\<forall>schema p req_body. parseInt p = n \<and> schema req_body = Inr updates \<longrightarrow>
         put_api_todos_id schema p req_body now db =
           (Response 404 (Message ''Todo not found''), db))) \<and>
   (\<forall>schema p req_body error. parseInt p = n \<and> n \<noteq> NaN \<and> schema req_body = Inl error \<longrightarrow>
      put_api_todos_id schema p req_body now db =
        (Response 400 (Validation_message error), db)) \<and>
   (\<forall>e. bind_integer n = Inl e \<or> bind_updates updates = Inl e \<longrightarrow>
      (\<exists>e'. updateTodo n updates now db = Inl e') \<and>
      (\<forall>schema p req_body. parseInt p = n \<and> n \<noteq> NaN \<and> schema req_body = Inr updates \<longrightarrow>
         put_api_todos_id schema p req_body now db =
           (Response 500 (Message ''Failed to update todo''), db)))"
proof (intro conjI impI allI)
  assume a: "bind_integer n = Inr i \<and> i \<notin> ids db \<and> bind_updates updates = Inr bound"
  then show absent: "updateTodo n updates now db = Inr (None, db)"
    by (simp add: updateTodo_absent)
  fix schema :: "UpdateTodo schema" and p req_body
  assume "parseInt p = n \<and> schema req_body = Inr updates"
  moreover from a have "n \<noteq> NaN"
    by (auto simp: bind_integer_def)
  ultimately show "put_api_todos_id schema p req_body now db =
      (Response 404 (Message ''Todo not found''), db)"
    using absent by (simp add: put_api_todos_id_def)
next
  fix schema :: "UpdateTodo schema" and p req_body error
  assume "parseInt p = n \<and> n \<noteq> NaN \<and> schema req_body = Inl error"
  then show "put_api_todos_id schema p req_body now db =
      (Response 400 (Validation_message error), db)"
    by (simp add: put_api_todos_id_def)
next
  fix e
  assume "bind_integer n = Inl e \<or> bind_updates updates = Inl e"
  then show raised: "\<exists>e'. updateTodo n updates now db = Inl e'"
    using updateTodo_raises_id [of n e updates now db]
      updateTodo_raises_text [of updates e n now db]
    by blast
  fix schema :: "UpdateTodo schema" and p req_body
  assume "parseInt p = n \<and> n \<noteq> NaN \<and> schema req_body = Inr updates"
  then show "put_api_todos_id schema p req_body now db =
      (Response 500 (Message ''Failed to update todo''), db)"
    using raised by (auto simp: put_api_todos_id_def)
qed

lemma updateTodoSchema_completed:
  "updateTodoSchema (JObject [(str ''completed'', JBool True)]) =
     Inr \<lparr>update_text = None, update_completed = Some True\<rparr>"
  by (simp add: updateTodoSchema_def optional_text_def optional_completed_def str_def)

lemma updateTodoSchema_not_boolean:
  "updateTodoSchema (JObject [(str ''completed'', JNull)]) =
     Inl (ZodError [''completed: Expected boolean''])"
  by (simp add: updateTodoSchema_def optional_text_def optional_completed_def str_def)

theorem update_absent_id_witness:
  "bind_integer (Integral 7) = Inr 7 \<and> 7 \<notin> ids example_database \<and>
   updateTodo (Integral 7) \<lparr>update_text = None, update_completed = Some True\<rparr> 7000
       example_database =
     Inr (None, example_database) \<and>
   put_api_todos_id updateTodoSchema (str ''7'') (JObject [(str ''completed'', JBool True)])
       7000 example_database =
     (Response 404 (Message ''Todo not found''), example_database) \<and>
   put_api_todos_id updateTodoSchema (str ''7'') (JObject [(str ''completed'', JNull)])
       7000 example_database =
     (Response 400 (Validation_message (ZodError [''completed: Expected boolean''])),
      example_database) \<and>
   put_api_todos_id updateTodoSchema (str ''99999999999999999999'')
       (JObject [(str ''completed'', JBool True)]) 7000 example_database =
     (Response 500 (Message ''Failed to update todo''), example_database)"
proof -
  let ?u = "\<lparr>update_text = None, update_completed = Some True\<rparr>"
  have seven: "bind_integer (Integral 7) = Inr 7" "Integral 7 \<noteq> NaN"
    by (simp_all add: bind_integer_def)
  have absent: "7 \<notin> ids example_database"
    by (simp add: ids_def example_database_def)
  have bound: "bind_updates ?u = Inr ?u"
    by (simp add: bind_updates_def)
  have huge: "bind_integer (Unsafe False) = Inl BadInteger" "Unsafe False \<noteq> NaN"
    by (simp_all add: bind_integer_def)
  note in_range = update_absent_id [of "Integral 7" 7 example_database ?u ?u 7000]
  note too_large = update_absent_id [of "Unsafe False" 7 example_database ?u ?u 7000]
  from in_range [THEN conjunct1] seven(1) absent bound
  have stored: "updateTodo (Integral 7) ?u 7000 example_database = Inr (None, example_database)"
    and found: "\<forall>schema p req_body. parseInt p = Integral 7 \<and> schema req_body = Inr ?u \<longrightarrow>
      put_api_todos_id schema p req_body 7000 example_database =
        (Response 404 (Message ''Todo not found''), example_database)"
    by simp_all
  from found [rule_format, of "str ''7''" updateTodoSchema] parseInt_7 updateTodoSchema_completed
  have answer404: "put_api_todos_id updateTodoSchema (str ''7'')
      (JObject [(str ''completed'', JBool True)]) 7000 example_database =
      (Response 404 (Message ''Todo not found''), example_database)"
    by simp
  from in_range [THEN conjunct2, THEN conjunct1, rule_format, of "str ''7''" updateTodoSchema
      "JObject [(str ''completed'', JNull)]"]
    parseInt_7 seven(2) updateTodoSchema_not_boolean
  have answer400: "put_api_todos_id updateTodoSchema (str ''7'')
      (JObject [(str ''completed'', JNull)]) 7000 example_database =
      (Response 400 (Validation_message (ZodError [''completed: Expected boolean''])),
       example_database)"
    by simp
  from too_large [THEN conjunct2, THEN conjunct2, rule_format, of BadInteger] huge(1)
  have "\<forall>schema p req_body.
      parseInt p = Unsafe False \<and> Unsafe False \<noteq> NaN \<and> schema req_body = Inr ?u \<longrightarrow>
      put_api_todos_id schema p req_body 7000 example_database =
        (Response 500 (Message ''Failed to update todo''), example_database)"
    by simp
  from this [rule_format, of "str ''99999999999999999999''" updateTodoSchema]
    parseInt_twenty_nines updateTodoSchema_completed
  have answer500: "put_api_todos_id updateTodoSchema (str ''99999999999999999999'')
      (JObject [(str ''completed'', JBool True)]) 7000 example_database =
      (Response 500 (Message ''Failed to update todo''), example_database)"
    by simp
  from seven(1) absent stored answer404 answer400 answer500 show ?thesis
    by (intro conjI)
qed

text \<open>
  Claim C4 as the spec words it promises the not-found outcome for every id
  without a row. The id 99999999999999999999 has no row, the body passes the
  schema, and the answer is 500; the id 7 has no row either, and with a body that
  fails the schema the answer is 400.
\<close>

theorem update_absent_id_not_404:
  "7 \<notin> ids example_database \<and>
   bind_integer (parseInt (str ''99999999999999999999'')) = Inl BadInteger \<and>
   put_api_todos_id updateTodoSchema (str ''99999999999999999999'')
       (JObject [(str ''completed'', JBool True)]) 7000 example_database =
     (Response 500 (Message ''Failed to update todo''), example_database) \<and>
   put_api_todos_id updateTodoSchema (str ''7'') (JObject [(str ''completed'', JNull)])
       7000 example_database =
     (Response 400 (Validation_message (ZodError [''completed: Expected boolean''])),
      example_database)"
proof -
  have absent: "7 \<notin> ids example_database"
    by (simp add: ids_def example_database_def)
  have huge: "bind_integer (parseInt (str ''99999999999999999999'')) = Inl BadInteger"
    by (simp add: parseInt_twenty_nines bind_integer_def)
  have raised: "updateTodo (Unsafe False) \<lparr>update_text = None, update_completed = Some True\<rparr>
      7000 example_database = Inl BadInteger"
    by (simp add: updateTodo_def bind_updates_def bind_integer_def)
  have answer500: "put_api_todos_id updateTodoSchema (str ''99999999999999999999'')
       (JObject [(str ''completed'', JBool True)]) 7000 example_database =
     (Response 500 (Message ''Failed to update todo''), example_database)"
    by (simp add: put_api_todos_id_def parseInt_twenty_nines updateTodoSchema_completed raised)
  have answer400: "put_api_todos_id updateTodoSchema (str ''7'')
       (JObject [(str ''completed'', JNull)]) 7000 example_database =
     (Response 400 (Validation_message (ZodError [''completed: Expected boolean''])),
      example_database)"
    by (simp add: put_api_todos_id_def parseInt_7 updateTodoSchema_not_boolean)
  from absent huge answer500 answer400 show ?thesis
    by (intro conjI)
qed

text \<open>
  Claim C9. On a store that satisfies the table invariant, a PUT for the id of an
  existing row whose body is the empty object, which \<open>updateTodoSchema\<close> accepts as
  the update that sets nothing, is answered 200 with the row at \<open>updatedAt = now\<close>:
  id, text, completed and \<open>createdAt\<close> are those of the row, and in the table that row
  is replaced by the answer and no other row changes.
\<close>

theorem update_empty_object:
  "store_inv db \<Longrightarrow> t \<in> set (todos db) \<Longrightarrow> parseInt p = Integral (sint (todo_id t)) \<Longrightarrow>
   schema (JObject []) = Inr \<lparr>update_text = None, update_completed = None\<rparr> \<Longrightarrow>
     \<exists>r. fst (put_api_todos_id schema p (JObject []) now db) = Response 200 (Todo_json r) \<and>
       todo_id r = todo_id t \<and> todo_text r = todo_text t \<and> completed r = completed t \<and>
       createdAt r = createdAt t \<and> updatedAt r = now \<and>
       todos (snd (put_api_todos_id schema p (JObject []) now db)) =
         map (\<lambda>x. if x = t then r else x) (todos db)"
proof -
  assume inv: "store_inv db" and t: "t \<in> set (todos db)"
    and p: "parseInt p = Integral (sint (todo_id t))"
    and schema: "schema (JObject []) = Inr \<lparr>update_text = None, update_completed = None\<rparr>"
  let ?u = "\<lparr>update_text = None, update_completed = None\<rparr>"
  let ?r = "t\<lparr>updatedAt := now\<rparr>"
  let ?rows = "map (\<lambda>x. if x = t then ?r else x) (todos db)"
  have set: "set_columns ?u now x = x\<lparr>updatedAt := now\<rparr>" for x
    by (simp add: set_columns_def)
  have bound: "bind_updates ?u = Inr ?u"
    by (simp add: bind_updates_def)
  have one: "filter (\<lambda>r. todo_id r = todo_id t) (todos db) = [t]"
    using inv t by (simp add: store_inv_def filter_this_id_distinct)
  have same: "x \<in> set (todos db) \<Longrightarrow> todo_id x = todo_id t \<longleftrightarrow> x = t" for x
    using inv t by (auto simp: store_inv_def distinct_map inj_on_def)
  have rows: "map (\<lambda>x. if todo_id x = todo_id t then set_columns ?u now x else x) (todos db) =
      ?rows"
    by (simp add: set same cong: map_cong)
  have run: "updateTodo (Integral (sint (todo_id t))) ?u now db =
      Inr (Some ?r, db\<lparr>todos := ?rows\<rparr>)"
    by (simp add: updateTodo_Inr [OF bound bind_integer_sint] one rows) (simp add: set)
  have answer: "put_api_todos_id schema p (JObject []) now db =
      (Response 200 (Todo_json ?r), db\<lparr>todos := ?rows\<rparr>)"
    by (simp add: put_api_todos_id_def p schema run)
  show ?thesis
  proof (intro exI conjI)
    show "fst (put_api_todos_id schema p (JObject []) now db) = Response 200 (Todo_json ?r)"
      by (simp add: answer)
    show "todos (snd (put_api_todos_id schema p (JObject []) now db)) = ?rows"
      by (simp add: answer)
  qed simp_all
qed

theorem update_empty_object_witness:
  "store_inv example_database \<and>
   updateTodoSchema (JObject []) = Inr \<lparr>update_text = None, update_completed = None\<rparr> \<and>
   parseInt (str ''2'') = Integral 2 \<and>
   (\<exists>r. fst (put_api_todos_id updateTodoSchema (str ''2'') (JObject []) 9000 example_database) =
           Response 200 (Todo_json r) \<and>
        todo_id r = 2 \<and> todo_text r = str ''Walk the dog'' \<and> completed r = True \<and>
        createdAt r = 2000 \<and> updatedAt r = 9000)"
proof -
  let ?t = "\<lparr>todo_id = 2, todo_text = str ''Walk the dog'', completed = True,
          createdAt = 2000, updatedAt = 3000\<rparr>"
  have row: "?t \<in> set (todos example_database)"
    by (simp add: example_database_def)
  have p: "parseInt (str ''2'') = Integral (sint (todo_id ?t))"
    by (simp add: parseInt_2)
  have accepted: "updateTodoSchema (JObject []) = Inr \<lparr>update_text = None, update_completed = None\<rparr>"
    by (simp add: updateTodoSchema_def optional_text_def optional_completed_def)
  from update_empty_object
    [where schema = updateTodoSchema and now = 9000, OF store_inv_example row p accepted]
  have "\<exists>r. fst (put_api_todos_id updateTodoSchema (str ''2'') (JObject []) 9000 example_database) =
           Response 200 (Todo_json r) \<and>
        todo_id r = 2 \<and> todo_text r = str ''Walk the dog'' \<and> completed r = True \<and>
        createdAt r = 2000 \<and> updatedAt r = 9000"
    by auto
  then show ?thesis
    using store_inv_example accepted parseInt_2 by blast
qed

section \<open>Listing\<close>

text \<open>
  Claim C5. For every store, \<open>getAllTodos\<close> returns exactly the rows of the table,
  each as often as the table has it, ordered so that no record comes before one
  with a later \<open>createdAt\<close>; the GET handler sends that list with status 200 and
  does not change the store.
\<close>

theorem list_all_todos:
  "mset (getAllTodos db) = mset (todos db) \<and>
   sorted_wrt (\<lambda>a b. createdAt a \<ge> createdAt b) (getAllTodos db) \<and>
   get_api_todos db = (Response 200 (Todo_list (getAllTodos db)), db)"
proof -
  have "sorted (map (\<lambda>t. - createdAt t) (getAllTodos db))"
    by (simp add: getAllTodos_def)
  then have "sorted_wrt (\<lambda>a b. createdAt a \<ge> createdAt b) (getAllTodos db)"
    by (simp add: sorted_wrt_map)
  then show ?thesis
    by (simp add: getAllTodos_def get_api_todos_def)
qed

theorem list_all_todos_witness:
  "getAllTodos example_database =
     [\<lparr>todo_id = 2, todo_text = str ''Walk the dog'', completed = True,
       createdAt = 2000, updatedAt = 3000\<rparr>,
      \<lparr>todo_id = 1, todo_text = str ''Buy milk'', completed = False,
       createdAt = 1000, updatedAt = 1000\<rparr>] \<and>
   mset (getAllTodos example_database) = mset (todos example_database) \<and>
   sorted_wrt (\<lambda>a b. createdAt a \<ge> createdAt b) (getAllTodos example_database)"
proof -
  have "getAllTodos example_database =
     [\<lparr>todo_id = 2, todo_text = str ''Walk the dog'', completed = True,
       createdAt = 2000, updatedAt = 3000\<rparr>,
      \<lparr>todo_id = 1, todo_text = str ''Buy milk'', completed = False,
       createdAt = 1000, updatedAt = 1000\<rparr>]"
    by (simp add: getAllTodos_def example_database_def)
  with list_all_todos [of example_database] show ?thesis by blast
qed

section \<open>Derived values of the view\<close>

text \<open>
  Claim C6. For every fetched list, the view for the filter \<open>active\<close> holds no
  completed task, the view for \<open>completed\<close> holds no task that is not completed,
  and the view for \<open>all\<close> is the fetched list.
\<close>

theorem filtered_views:
  "(\<forall>todo \<in> set (getFilteredTodos Active fetched). \<not> completed todo) \<and>
   (\<forall>todo \<in> set (getFilteredTodos Completed fetched). completed todo) \<and>
   getFilteredTodos All fetched = fetched"
  by (simp add: getFilteredTodos_def)

theorem filtered_views_witness:
  "getFilteredTodos Active (todos example_database) =
     [\<lparr>todo_id = 1, todo_text = str ''Buy milk'', completed = False,
       createdAt = 1000, updatedAt = 1000\<rparr>] \<and>
   getFilteredTodos Completed (todos example_database) =
     [\<lparr>todo_id = 2, todo_text = str ''Walk the dog'', completed = True,
       createdAt = 2000, updatedAt = 3000\<rparr>] \<and>
   getFilteredTodos All (todos example_database) = todos example_database"
proof -
  have views:
    "getFilteredTodos Active (todos example_database) =
       [\<lparr>todo_id = 1, todo_text = str ''Buy milk'', completed = False,
         createdAt = 1000, updatedAt = 1000\<rparr>]"
    "getFilteredTodos Completed (todos example_database) =
       [\<lparr>todo_id = 2, todo_text = str ''Walk the dog'', completed = True,
         createdAt = 2000, updatedAt = 3000\<rparr>]"
    by (simp_all add: getFilteredTodos_def example_database_def)
  with filtered_views [of "todos example_database"] show ?thesis by blast
qed

text \<open>
  Claim C7. For every fetched list the pending count and the completed count add
  up to the total count; the completed count is the number of positions of the list
  that hold a task with \<open>completed = true\<close>, and the pending count the number of
  the others.
\<close>

theorem counts_add_up:
  "pendingTodos fetched + completedTodos fetched = totalTodos fetched \<and>
   completedTodos fetched = int (card {k. k < length fetched \<and> completed (fetched ! k)}) \<and>
   pendingTodos fetched = int (card {k. k < length fetched \<and> \<not> completed (fetched ! k)})"
proof -
  have "length fetched =
      length (filter (\<lambda>todo. completed todo) fetched) +
      length (filter (\<lambda>todo. \<not> completed todo) fetched)"
    by (simp add: sum_length_filter_compl)
  then have "pendingTodos fetched = int (length (filter (\<lambda>todo. \<not> completed todo) fetched))"
    by (simp add: pendingTodos_def totalTodos_def completedTodos_def)
  then show ?thesis
    by (simp add: pendingTodos_def completedTodos_def length_filter_conv_card)
qed

theorem counts_add_up_witness:
  "totalTodos (todos example_database) = 2 \<and>
   completedTodos (todos example_database) = 1 \<and>
   pendingTodos (todos example_database) = 1 \<and>
   pendingTodos (todos example_database) + completedTodos (todos example_database) =
     totalTodos (todos example_database)"
proof -
  have "totalTodos (todos example_database) = 2" "completedTodos (todos example_database) = 1"
    by (simp_all add: totalTodos_def completedTodos_def example_database_def)
  with counts_add_up [of "todos example_database"] show ?thesis by simp
qed

section \<open>Editing in the view\<close>

text \<open>
  Claim C8. When the draft is not empty after trimming, \<open>saveEditing\<close> issues one
  update, for the task being edited and carrying the trimmed draft as its only
  field, and leaves edit mode at once; the mode is still left after the mutation
  has reported success. When the draft is empty after trimming, \<open>saveEditing\<close>
  changes nothing and issues nothing. \<open>cancelEditing\<close> leaves edit mode, empties
  the draft and issues nothing.
\<close>

theorem editing_confirm_cancel:
  "(trim (editingText v) \<noteq> [] \<longrightarrow>
      snd (saveEditing v) =
        [UpdateTodoMutation (editingId v)
           \<lparr>update_text = Some (trim (editingText v)), update_completed = None\<rparr>] \<and>
      editingId (fst (saveEditing v)) = None \<and>
      editingId (fst (updateTodoMutation_onSuccess (fst (saveEditing v)))) = None) \<and>
   (trim (editingText v) = [] \<longrightarrow> saveEditing v = (v, [])) \<and>
   snd (cancelEditing v) = [] \<and>
   editingId (fst (cancelEditing v)) = None \<and>
   editingText (fst (cancelEditing v)) = []"
  by (simp add: saveEditing_def cancelEditing_def updateTodoMutation_onSuccess_def)

lemma saveEditing_before_the_answer:
  "trim (editingText v) \<noteq> [] \<Longrightarrow>
     editingId (fst (updateTodoMutation_onError (fst (saveEditing v)))) = None \<and>
     editingText (fst (updateTodoMutation_onError (fst (saveEditing v)))) = []"
  by (simp add: saveEditing_def updateTodoMutation_onError_def)

lemma trim_oat: "trim (str ''  Buy oat milk '') = str ''Buy oat milk''"
  by (simp add: trim_def trimStart_def str_def isWhiteSpace_def)

lemma trim_blank: "trim (str ''   '') = []"
  by (simp add: trim_def trimStart_def str_def isWhiteSpace_def)

theorem editing_confirm_cancel_witness:
  "trim (editingText (example_view (str ''  Buy oat milk ''))) \<noteq> [] \<and>
   snd (saveEditing (example_view (str ''  Buy oat milk ''))) =
     [UpdateTodoMutation (Some 1)
        \<lparr>update_text = Some (str ''Buy oat milk''), update_completed = None\<rparr>] \<and>
   editingId (fst (saveEditing (example_view (str ''  Buy oat milk '')))) = None \<and>
   trim (editingText (example_view (str ''   ''))) = [] \<and>
   saveEditing (example_view (str ''   '')) = (example_view (str ''   ''), []) \<and>
   snd (cancelEditing (example_view (str ''  Buy oat milk ''))) = []"
proof -
  have filled: "trim (editingText (example_view (str ''  Buy oat milk ''))) = str ''Buy oat milk''"
    by (simp add: example_view_def trim_oat)
  then have nonempty: "trim (editingText (example_view (str ''  Buy oat milk ''))) \<noteq> []"
    by (simp add: str_def)
  have blank: "trim (editingText (example_view (str ''   ''))) = []"
    by (simp add: example_view_def trim_blank)
  have id: "editingId (example_view (str ''  Buy oat milk '')) = Some 1"
    by (simp add: example_view_def)
  show ?thesis
    using editing_confirm_cancel [of "example_view (str ''  Buy oat milk '')"]
      editing_confirm_cancel [of "example_view (str ''   '')"]
      filled nonempty blank id
    by simp
qed

section \<open>The id parameter of the path\<close>

lemma put_invalid_id:
  "parseInt p = NaN \<Longrightarrow>
     put_api_todos_id schema p req_body now db = (Response 400 (Message ''Invalid todo ID''), db)"
  by (simp add: put_api_todos_id_def)

lemma delete_invalid_id:
  "parseInt p = NaN \<Longrightarrow>
     delete_api_todos_id p db = (Response 400 (Message ''Invalid todo ID''), db)"
  by (simp add: delete_api_todos_id_def)

lemma put_valid_id:
  "parseInt p \<noteq> NaN \<Longrightarrow>
     sent (fst (put_api_todos_id schema p req_body now db)) \<noteq> Message ''Invalid todo ID''"
  by (simp add: put_api_todos_id_def split: sum.splits prod.splits option.splits)

lemma delete_valid_id:
  "parseInt p \<noteq> NaN \<Longrightarrow>
     sent (fst (delete_api_todos_id p db)) \<noteq> Message ''Invalid todo ID''"
  by (simp add: delete_api_todos_id_def split: sum.splits prod.splits bool.splits)

lemma put_same_id:
  "parseInt p = parseInt q \<Longrightarrow>
     put_api_todos_id schema p req_body now db = put_api_todos_id schema q req_body now db"
  by (simp add: put_api_todos_id_def)

lemma delete_same_id:
  "parseInt p = parseInt q \<Longrightarrow> delete_api_todos_id p db = delete_api_todos_id q db"
  by (simp add: delete_api_todos_id_def)

lemma bind_toNumber:
  "bind_integer (toNumber k) =
     (if - 2147483648 \<le> k \<and> k \<le> 2147483647 then Inr (word_of_int k) else Inl BadInteger)"
  by (auto simp: toNumber_def bind_integer_def abs_less_iff)

lemma delete_unbound_id:
  "parseInt p \<noteq> NaN \<Longrightarrow> bind_integer (parseInt p) = Inl e \<Longrightarrow>
     delete_api_todos_id p db = (Response 500 (Message ''Failed to delete todo''), db)"
  by (simp add: delete_api_todos_id_def deleteTodo_raises)

text \<open>After \<open>0x\<close> or \<open>0X\<close>, a run of hexadecimal digits is read in radix 16.\<close>

lemma hex_run:
  assumes "x = 0x78 \<or> x = 0x58" and "digits \<noteq> []" and "list_all isHexDigit digits"
    and "\<not> startsWith isHexDigit rest"
  shows "hasLeadingInteger (0x30 # x # digits @ rest)"
    and "leadingInteger (0x30 # x # digits @ rest) = radixValue 16 digits"
proof -
  let ?s = "0x30 # x # digits @ rest"
  have trimmed: "trimStart ?s = ?s"
    by (simp add: trimStart_def isWhiteSpace_def)
  have unsigned: "afterSign ?s = ?s" and plus: "\<not> startsWith (\<lambda>c. c = 0x2D) ?s"
    by (simp_all add: afterSign_def startsWith_def)
  have hex: "hexPrefixed ?s"
    using assms(1) by (auto simp: hexPrefixed_def)
  have run: "takeWhile isHexDigit (digits @ rest) = digits"
  proof -
    have "takeWhile isHexDigit (digits @ rest) = digits @ takeWhile isHexDigit rest"
      using assms(3) by (simp add: takeWhile_append2 list_all_iff)
    then show ?thesis using assms(4) by (simp add: takeWhile_Nil_iff)
  qed
  have first: "startsWith isHexDigit (digits @ rest)"
    using assms(2,3) by (cases digits) (simp_all add: startsWith_def)
  have "hasLeadingInteger ?s = startsWith isHexDigit (drop 2 ?s)"
    unfolding hasLeadingInteger_def Let_def trimmed unsigned using hex by simp
  then show "hasLeadingInteger ?s"
    using first by simp
  have "leadingInteger ?s = radixValue 16 (takeWhile isHexDigit (drop 2 ?s))"
    unfolding leadingInteger_def Let_def trimmed unsigned using hex plus by simp
  then show "leadingInteger ?s = radixValue 16 digits"
    by (simp add: run)
qed

text \<open>
  Claim C10 as the code has it. Both handlers answer 400 with \<open>Invalid todo ID\<close>
  exactly for the parameters without a leading integer in the sense of \<open>parseInt\<close>:
  after white space and one optional sign, a decimal digit, or \<open>0x\<close>/\<open>0X\<close> and a
  hexadecimal digit. For every other parameter the id is the signed value of the
  leading integer, as the number itself while its magnitude is below \<open>2^53\<close>, and
  the handlers treat two parameters with the same value alike. A run of decimal
  digits followed by something that is not a decimal digit has the decimal value
  of the run, unless the run is \<open>0\<close> and an \<open>x\<close> or \<open>X\<close> follows; after \<open>0x\<close> or
  \<open>0X\<close>, a run of hexadecimal digits followed by something that is not one has
  the value of the run in radix 16. A value of the integer column's range is what
  the query is run with; for any other value the query raises, and the DELETE
  handler answers 500.
\<close>

theorem id_parameter:
  "(\<not> hasLeadingInteger p \<longrightarrow>
      put_api_todos_id schema p req_body now db =
        (Response 400 (Message ''Invalid todo ID''), db) \<and>
      delete_api_todos_id p db = (Response 400 (Message ''Invalid todo ID''), db)) \<and>
   (hasLeadingInteger p \<longrightarrow>
      sent (fst (put_api_todos_id schema p req_body now db)) \<noteq> Message ''Invalid todo ID'' \<and>
      sent (fst (delete_api_todos_id p db)) \<noteq> Message ''Invalid todo ID'' \<and>
      parseInt p = toNumber (leadingInteger p) \<and>
      (\<bar>leadingInteger p\<bar> < 2 ^ 53 \<longrightarrow> parseInt p = Integral (leadingInteger p))) \<and>
   (hasLeadingInteger p \<and> hasLeadingInteger q \<and> leadingInteger p = leadingInteger q \<longrightarrow>
      put_api_todos_id schema p req_body now db = put_api_todos_id schema q req_body now db \<and>
      delete_api_todos_id p db = delete_api_todos_id q db) \<and>
   (digits \<noteq> [] \<and> list_all isDecimalDigit digits \<and> \<not> startsWith isDecimalDigit rest \<and>
    \<not> (digits = str ''0'' \<and> startsWith (\<lambda>c. c = 0x78 \<or> c = 0x58) rest) \<longrightarrow>
      hasLeadingInteger (digits @ rest) \<and>
      leadingInteger (digits @ rest) = radixValue 10 digits \<and>
      put_api_todos_id schema (digits @ rest) req_body now db =
        put_api_todos_id schema digits req_body now db \<and>
      delete_api_todos_id (digits @ rest) db = delete_api_todos_id digits db) \<and>
   ((x = 0x78 \<or> x = 0x58) \<and> hexdigits \<noteq> [] \<and> list_all isHexDigit hexdigits \<and>
    \<not> startsWith isHexDigit rest \<longrightarrow>
      hasLeadingInteger (0x30 # x # hexdigits @ rest) \<and>
      leadingInteger (0x30 # x # hexdigits @ rest) = radixValue 16 hexdigits) \<and>
   (hasLeadingInteger p \<longrightarrow>
      (if - 2147483648 \<le> leadingInteger p \<and> leadingInteger p \<le> 2147483647
       then bind_integer (parseInt p) = Inr (word_of_int (leadingInteger p))
       else bind_integer (parseInt p) = Inl BadInteger \<and>
            delete_api_todos_id p db =
              (Response 500 (Message ''Failed to delete todo''), db)))"
proof (intro conjI impI)
  assume "\<not> hasLeadingInteger p"
  then have nan: "parseInt p = NaN"
    by (simp add: parseInt_NaN_iff)
  show "put_api_todos_id schema p req_body now db =
      (Response 400 (Message ''Invalid todo ID''), db)"
    using nan by (rule put_invalid_id)
  show "delete_api_todos_id p db = (Response 400 (Message ''Invalid todo ID''), db)"
    using nan by (rule delete_invalid_id)
next
  assume leading: "hasLeadingInteger p"
  then have number: "parseInt p \<noteq> NaN"
    by (simp add: parseInt_NaN_iff)
  show "sent (fst (put_api_todos_id schema p req_body now db)) \<noteq> Message ''Invalid todo ID''"
    using number by (rule put_valid_id)
  show "sent (fst (delete_api_todos_id p db)) \<noteq> Message ''Invalid todo ID''"
    using number by (rule delete_valid_id)
  show "parseInt p = toNumber (leadingInteger p)"
    using leading by (rule parseInt_value)
  assume "\<bar>leadingInteger p\<bar> < 2 ^ 53"
  then show "parseInt p = Integral (leadingInteger p)"
    by (simp add: parseInt_value [OF leading] toNumber_def)
next
  assume "hasLeadingInteger p \<and> hasLeadingInteger q \<and> leadingInteger p = leadingInteger q"
  then have same: "parseInt p = parseInt q"
    by (simp add: parseInt_value)
  show "put_api_todos_id schema p req_body now db = put_api_todos_id schema q req_body now db"
    using same by (rule put_same_id)
  show "delete_api_todos_id p db = delete_api_todos_id q db"
    using same by (rule delete_same_id)
next
  assume run: "digits \<noteq> [] \<and> list_all isDecimalDigit digits \<and>
    \<not> startsWith isDecimalDigit rest \<and>
    \<not> (digits = str ''0'' \<and> startsWith (\<lambda>c. c = 0x78 \<or> c = 0x58) rest)"
  then show whole: "hasLeadingInteger (digits @ rest)"
    and whole_value: "leadingInteger (digits @ rest) = radixValue 10 digits"
    by (simp_all add: decimal_run)
  have empty: "\<not> startsWith isDecimalDigit []"
    "\<not> (digits = str ''0'' \<and> startsWith (\<lambda>c. c = 0x78 \<or> c = 0x58) [])"
    by (simp_all add: startsWith_def)
  from run have nonempty: "digits \<noteq> []" and decimal: "list_all isDecimalDigit digits"
    by simp_all
  note alone = decimal_run [OF nonempty decimal empty]
  from whole whole_value alone have same: "parseInt (digits @ rest) = parseInt digits"
    by (simp add: parseInt_value)
  show "put_api_todos_id schema (digits @ rest) req_body now db =
      put_api_todos_id schema digits req_body now db"
    using same by (rule put_same_id)
  show "delete_api_todos_id (digits @ rest) db = delete_api_todos_id digits db"
    using same by (rule delete_same_id)
next
  assume run: "(x = 0x78 \<or> x = 0x58) \<and> hexdigits \<noteq> [] \<and> list_all isHexDigit hexdigits \<and>
    \<not> startsWith isHexDigit rest"
  then show "hasLeadingInteger (0x30 # x # hexdigits @ rest)"
    and "leadingInteger (0x30 # x # hexdigits @ rest) = radixValue 16 hexdigits"
    by (simp_all add: hex_run)
next
  assume leading: "hasLeadingInteger p"
  then have number: "parseInt p \<noteq> NaN"
    by (simp add: parseInt_NaN_iff)
  show "if - 2147483648 \<le> leadingInteger p \<and> leadingInteger p \<le> 2147483647
       then bind_integer (parseInt p) = Inr (word_of_int (leadingInteger p))
       else bind_integer (parseInt p) = Inl BadInteger \<and>
            delete_api_todos_id p db =
              (Response 500 (Message ''Failed to delete todo''), db)"
  proof (cases "- 2147483648 \<le> leadingInteger p \<and> leadingInteger p \<le> 2147483647")
    case True
    then show ?thesis
      by (simp add: parseInt_value [OF leading] bind_toNumber)
  next
    case False
    then have unbound: "bind_integer (parseInt p) = Inl BadInteger"
      by (simp add: parseInt_value [OF leading] bind_toNumber)
    with False number show ?thesis
      by (simp add: delete_unbound_id)
  qed
qed

lemmas leading_eval =
  hasLeadingInteger_def leadingInteger_def trimStart_def isWhiteSpace_def afterSign_def
  hexPrefixed_def startsWith_def isDecimalDigit_def isHexDigit_def digitValue_def str_def
  Let_def

lemma leading_abc: "\<not> hasLeadingInteger (str ''abc'')"
  by (simp add: leading_eval)

lemma leading_12abc: "hasLeadingInteger (str ''12abc'')" "leadingInteger (str ''12abc'') = 12"
  by (simp_all add: leading_eval)

lemma leading_hex: "hasLeadingInteger (str '' -0X1f.5'')" "leadingInteger (str '' -0X1f.5'') = - 31"
  by (simp_all add: leading_eval)

lemma leading_beyond:
  "hasLeadingInteger (str ''9007199254740993abc'')"
  "leadingInteger (str ''9007199254740993abc'') = 9007199254740993"
  by (simp_all add: leading_eval)

theorem id_parameter_witness:
  "\<not> hasLeadingInteger (str ''abc'') \<and>
   delete_api_todos_id (str ''abc'') example_database =
     (Response 400 (Message ''Invalid todo ID''), example_database) \<and>
   put_api_todos_id updateTodoSchema (str ''abc'') (JObject []) 9000 example_database =
     (Response 400 (Message ''Invalid todo ID''), example_database) \<and>
   hasLeadingInteger (str ''12abc'') \<and>
   sent (fst (delete_api_todos_id (str ''12abc'') example_database)) \<noteq>
     Message ''Invalid todo ID'' \<and>
   parseInt (str ''12abc'') = Integral 12 \<and>
   hasLeadingInteger (str '' -0X1f.5'') \<and>
   parseInt (str '' -0X1f.5'') = Integral (- 31) \<and>
   hasLeadingInteger (str ''9007199254740993abc'') \<and>
   delete_api_todos_id (str ''9007199254740993abc'') example_database =
     (Response 500 (Message ''Failed to delete todo''), example_database)"
proof -
  note rejected = id_parameter [of "str ''abc''" updateTodoSchema "JObject []" 9000
      example_database "str ''abc''" "[]" "[]" 0 "[]", THEN conjunct1, rule_format, OF leading_abc]
  note accepted = id_parameter [of "str ''12abc''" updateTodoSchema "JObject []" 9000
      example_database "str ''12abc''" "[]" "[]" 0 "[]", THEN conjunct2, THEN conjunct1,
      rule_format, OF leading_12abc(1)]
  note hex = id_parameter [of "str '' -0X1f.5''" updateTodoSchema "JObject []" 9000
      example_database "str ''abc''" "[]" "[]" 0 "[]", THEN conjunct2, THEN conjunct1,
      rule_format, OF leading_hex(1)]
  note beyond = id_parameter [of "str ''9007199254740993abc''" updateTodoSchema "JObject []" 9000
      example_database "str ''abc''" "[]" "[]" 0 "[]", THEN conjunct2, THEN conjunct2,
      THEN conjunct2, THEN conjunct2, THEN conjunct2, rule_format, OF leading_beyond(1)]
  have twelve: "parseInt (str ''12abc'') = Integral 12"
    using accepted by (simp add: leading_12abc(2) toNumber_def)
  have thirty_one: "parseInt (str '' -0X1f.5'') = Integral (- 31)"
    using hex by (simp add: leading_hex(2) toNumber_def)
  have answer500: "delete_api_todos_id (str ''9007199254740993abc'') example_database =
     (Response 500 (Message ''Failed to delete todo''), example_database)"
    using beyond by (simp add: leading_beyond(2))
  from leading_abc rejected [THEN conjunct2] rejected [THEN conjunct1] leading_12abc(1)
    accepted [THEN conjunct2, THEN conjunct1] twelve leading_hex(1) thirty_one
    leading_beyond(1) answer500
  show ?thesis
    by (intro conjI)
qed

text \<open>
  Claim C10 as the spec words it fails where the numeric prefix is \<open>0\<close> and an
  \<open>x\<close> follows: \<open>0x\<close> has the numeric prefix \<open>0\<close> and is rejected with 400, and
  \<open>0x10\<close> is accepted as 16, not as its integer prefix 0.
\<close>

theorem id_parameter_hex_prefix:
  "integerPrefix (str ''0x'') = Some 0 \<and>
   delete_api_todos_id (str ''0x'') example_database =
     (Response 400 (Message ''Invalid todo ID''), example_database) \<and>
   put_api_todos_id updateTodoSchema (str ''0x'') (JObject []) 9000 example_database =
     (Response 400 (Message ''Invalid todo ID''), example_database) \<and>
   integerPrefix (str ''0x10'') = Some 0 \<and>
   parseInt (str ''0x10'') = Integral 16"
  by (simp add: integerPrefix_def numericPrefix_def isDecimalDigit_def
      delete_api_todos_id_def put_api_todos_id_def parseInt_eval)

end
